theory Spec2Isabelle
  imports Complex_Main "HOL-Library.Sublist"
begin

section \<open>Viralization of chatbot errors: the simulation engine of modelo.py\<close>

text \<open>
  The engine of \<^verbatim>\<open>modelo.py\<close> is embedded function by function. Python floats are
  read as real numbers, Python ints as \<^typ>\<open>int\<close>. Where a float decides an integer (the
  number of users a failure reaches, truncated by \<^verbatim>\<open>int\<close>), the uniform draw and the
  products that feed the truncation are rounded to binary64 as the machine rounds them. Objects shared by reference (the
  users of \<^verbatim>\<open>self.usuarios\<close>) are named by their position in that list. The
  module-level generator of \<^verbatim>\<open>random\<close> is an explicit oracle that is threaded
  through every call that draws from it. An exception is a value \<open>Inl e\<close>.
\<close>

subsection \<open>Exceptions and the random source\<close>

datatype error = ZeroDivisionError | ValueError | IndexError | OverflowError

subsection \<open>Binary64 rounding\<close>

text \<open>
  \<open>doble x\<close> is the binary64 number nearest to \<open>x\<close>, ties to the even significand:
  with \<open>e\<close> the exponent of \<open>x\<close> (at least \<open>-1022\<close>, where the subnormal numbers
  begin), \<open>x\<close> is rounded to a multiple of \<open>2 ^ (e - 52)\<close>. The exponent is not bounded
  above: a result of magnitude \<open>2 ^ 1024\<close> or more stands for an infinity
  (\<open>desborda\<close>).
\<close>

definition pot2 :: "int \<Rightarrow> real" where
  "pot2 k = (if 0 \<le> k then 2 ^ nat k else 1 / 2 ^ nat (- k))"

definition redondeo_par :: "real \<Rightarrow> int" where
  "redondeo_par q =
     (let f = \<lfloor>q\<rfloor> in
      if q - real_of_int f < 1 / 2 then f
      else if 1 / 2 < q - real_of_int f then f + 1
      else if even f then f else f + 1)"

definition exponente :: "real \<Rightarrow> int" where
  "exponente x = max (- 1022) \<lfloor>log 2 \<bar>x\<bar>\<rfloor>"

definition doble :: "real \<Rightarrow> real" where
  "doble x =
     (if x = 0 then 0
      else real_of_int (redondeo_par (x / pot2 (exponente x - 52))) * pot2 (exponente x - 52))"

definition desborda :: "real \<Rightarrow> bool" where
  "desborda x \<longleftrightarrow> 2 ^ 1024 \<le> \<bar>x\<bar>"

text \<open>
  The oracle is the sequence of the values that \<^verbatim>\<open>random.random()\<close> will return;
  drawing one value shifts the sequence. The library functions built on the generator
  are written over the same oracle: \<^verbatim>\<open>uniform(a, b)\<close> is \<open>a + (b - a) * random()\<close>
  with each of its three operations rounded to binary64 (the draws of
  \<^verbatim>\<open>random()\<close> lie in \<open>[0, 1)\<close>, where none of them overflows),
  an index below \<open>n\<close> is one draw scaled to \<open>n\<close>, \<^verbatim>\<open>sample\<close> takes \<open>k\<close> items
  at drawn positions without replacement and raises ValueError unless \<open>0 \<le> k \<le> n\<close>,
  \<^verbatim>\<open>choice\<close> takes the item at one drawn position and raises IndexError on an empty
  sequence.
\<close>

type_synonym rng = "nat \<Rightarrow> real"

definition random_random :: "rng \<Rightarrow> real \<times> rng" where
  "random_random g = (g 0, \<lambda>n. g (Suc n))"

definition random_uniform :: "real \<Rightarrow> real \<Rightarrow> rng \<Rightarrow> real \<times> rng" where
  "random_uniform a b g =
     (case random_random g of (r, g1) \<Rightarrow> (doble (a + doble (doble (b - a) * r)), g1))"

definition randbelow :: "nat \<Rightarrow> rng \<Rightarrow> nat \<times> rng" where
  "randbelow n g = (case random_random g of (r, g1) \<Rightarrow> (nat \<lfloor>r * real n\<rfloor> mod n, g1))"

definition quitar :: "nat \<Rightarrow> 'a list \<Rightarrow> 'a list" where
  "quitar j xs = take j xs @ drop (Suc j) xs"

fun tomar_muestra :: "nat \<Rightarrow> 'a list \<Rightarrow> rng \<Rightarrow> 'a list \<times> rng" where
  "tomar_muestra 0 pool g = ([], g)"
| "tomar_muestra (Suc k) pool g =
     (case randbelow (length pool) g of (j, g1) \<Rightarrow>
        (case tomar_muestra k (quitar j pool) g1 of (resto, g2) \<Rightarrow> (pool ! j # resto, g2)))"

definition random_sample :: "'a list \<Rightarrow> int \<Rightarrow> rng \<Rightarrow> error + ('a list \<times> rng)" where
  "random_sample population k g =
     (if k < 0 \<or> int (length population) < k then Inl ValueError
      else Inr (tomar_muestra (nat k) population g))"




definition random_choice :: "'a list \<Rightarrow> rng \<Rightarrow> error + ('a \<times> rng)" where
  "random_choice seq g =
     (if seq = [] then Inl IndexError
      else (case randbelow (length seq) g of (j, g1) \<Rightarrow> Inr (seq ! j, g1)))"

text \<open>\<^verbatim>\<open>int(x)\<close> on a float truncates toward zero.\<close>

definition py_int :: "real \<Rightarrow> int" where
  "py_int x = (if 0 \<le> x then \<lfloor>x\<rfloor> else \<lceil>x\<rceil>)"

subsection \<open>Usuario and Chatbot\<close>

record Usuario =
  id_usuario :: int
  tipo :: string
  probabilidad_interaccion :: real
  probabilidad_compartir :: real
  influencia :: real
  estado :: string
  tiempo_ultima_interaccion :: int
  interacciones_totales :: int
  errores_reportados :: int

text \<open>The dataclass constructor with \<^verbatim>\<open>__post_init__\<close>: the state defaults to
  \<^verbatim>\<open>'inactivo'\<close> and the three counters start at zero.\<close>

definition Usuario_init :: "int \<Rightarrow> string \<Rightarrow> real \<Rightarrow> real \<Rightarrow> real \<Rightarrow> Usuario" where
  "Usuario_init i t p_int p_comp infl =
     \<lparr>id_usuario = i, tipo = t, probabilidad_interaccion = p_int,
      probabilidad_compartir = p_comp, influencia = infl, estado = ''inactivo'',
      tiempo_ultima_interaccion = 0, interacciones_totales = 0, errores_reportados = 0\<rparr>"

record Chatbot =
  capacidad_maxima :: int
  tiempo_respuesta_base :: real
  probabilidad_error :: real
  capacidad_actual :: int
  errores_totales :: int
  tiempo_respuesta_actual :: real

definition Chatbot_init :: "int \<Rightarrow> real \<Rightarrow> real \<Rightarrow> Chatbot" where
  "Chatbot_init cap t_base p_err =
     \<lparr>capacidad_maxima = cap, tiempo_respuesta_base = t_base, probabilidad_error = p_err,
      capacidad_actual = 0, errores_totales = 0, tiempo_respuesta_actual = 0\<rparr>"

text \<open>The division \<^verbatim>\<open>capacidad_actual / capacidad_maxima\<close> raises when the
  capacity is zero, after \<^verbatim>\<open>capacidad_actual\<close> has been assigned.\<close>

definition actualizar_capacidad :: "Chatbot \<Rightarrow> int \<Rightarrow> error + Chatbot" where
  "actualizar_capacidad c n_activos =
     (let c1 = c\<lparr>capacidad_actual := min n_activos (capacidad_maxima c)\<rparr> in
      if capacidad_maxima c1 = 0 then Inl ZeroDivisionError
      else
        (let factor_carga = real_of_int (capacidad_actual c1) / real_of_int (capacidad_maxima c1)
         in Inr (c1\<lparr>tiempo_respuesta_actual :=
                      tiempo_respuesta_base c1 * (1 + factor_carga ^ 2)\<rparr>)))"

text \<open>\<^verbatim>\<open>generar_error\<close> reads the error probability and draws once; it has no
  access to any other state and returns the boolean only.\<close>

definition generar_error :: "Chatbot \<Rightarrow> rng \<Rightarrow> bool \<times> rng" where
  "generar_error c g = (case random_random g of (r, g1) \<Rightarrow> (r < probabilidad_error c, g1))"

subsection \<open>The model\<close>

record Evento =
  tiempo :: int
  usuario_origen :: int
  usuario_afectado :: int
  tipo_origen :: string

record Metricas =
  usuarios_activos :: "int list"
  usuarios_conscientes :: "int list"
  carga_sistema :: "real list"
  errores_generados :: "int list"
  tiempo_respuesta :: "real list"
  percepcion_publica :: "real list"

definition metricas_vacias :: Metricas where
  "metricas_vacias =
     \<lparr>usuarios_activos = [], usuarios_conscientes = [], carga_sistema = [],
      errores_generados = [], tiempo_respuesta = [], percepcion_publica = []\<rparr>"

record Modelo =
  num_usuarios :: int
  tiempo_simulacion :: int
  tiempo_actual :: int
  chatbot :: Chatbot
  usuarios :: "Usuario list"
  metricas :: Metricas
  eventos_viralizacion :: "Evento list"

text \<open>One iteration of the loop of \<^verbatim>\<open>_crear_usuarios\<close>: one draw for the type,
  then three uniform draws in the ranges of that type.\<close>

definition crear_usuario :: "int \<Rightarrow> rng \<Rightarrow> Usuario \<times> rng" where
  "crear_usuario i g =
     (case random_random g of (tipo_rand, g1) \<Rightarrow>
        if tipo_rand < 0.8 then
          (case random_uniform 0.1 0.3 g1 of (p_int, g2) \<Rightarrow>
           case random_uniform 0.05 0.15 g2 of (p_comp, g3) \<Rightarrow>
           case random_uniform 1.0 2.0 g3 of (infl, g4) \<Rightarrow>
             (Usuario_init i ''normal'' p_int p_comp infl, g4))
        else if tipo_rand < 0.95 then
          (case random_uniform 0.4 0.7 g1 of (p_int, g2) \<Rightarrow>
           case random_uniform 0.3 0.6 g2 of (p_comp, g3) \<Rightarrow>
           case random_uniform 3.0 8.0 g3 of (infl, g4) \<Rightarrow>
             (Usuario_init i ''critico'' p_int p_comp infl, g4))
        else
          (case random_uniform 0.2 0.5 g1 of (p_int, g2) \<Rightarrow>
           case random_uniform 0.6 0.9 g2 of (p_comp, g3) \<Rightarrow>
           case random_uniform 10.0 50.0 g3 of (infl, g4) \<Rightarrow>
             (Usuario_init i ''influencer'' p_int p_comp infl, g4)))"

fun crear_usuarios_rango :: "int list \<Rightarrow> rng \<Rightarrow> Usuario list \<times> rng" where
  "crear_usuarios_rango [] g = ([], g)"
| "crear_usuarios_rango (i # resto) g =
     (case crear_usuario i g of (u, g1) \<Rightarrow>
        (case crear_usuarios_rango resto g1 of (us, g2) \<Rightarrow> (u # us, g2)))"

text \<open>\<^verbatim>\<open>range(n)\<close> is \<open>[0..n - 1]\<close>, empty when \<open>n \<le> 0\<close>.\<close>

definition crear_usuarios :: "int \<Rightarrow> rng \<Rightarrow> Usuario list \<times> rng" where
  "crear_usuarios n g = crear_usuarios_rango [0..n - 1] g"

text \<open>\<^verbatim>\<open>ModeloViralizacion.__init__\<close>. The result type is that of every operation
  an exception can interrupt; the constructor has no raising branch.\<close>

definition ModeloViralizacion_init :: "int \<Rightarrow> int \<Rightarrow> int \<Rightarrow> rng \<Rightarrow> error + (Modelo \<times> rng)" where
  "ModeloViralizacion_init n capacidad_chatbot t_sim g =
     (case crear_usuarios n g of (us, g1) \<Rightarrow>
        Inr (\<lparr>num_usuarios = n, tiempo_simulacion = t_sim, tiempo_actual = 0,
              chatbot = Chatbot_init capacidad_chatbot 1.0 0.01,
              usuarios = us, metricas = metricas_vacias, eventos_viralizacion = []\<rparr>, g1))"

subsection \<open>Interaction, propagation, perception\<close>

definition cambiar_usuario :: "nat \<Rightarrow> (Usuario \<Rightarrow> Usuario) \<Rightarrow> Modelo \<Rightarrow> Modelo" where
  "cambiar_usuario i f m = m\<lparr>usuarios := (usuarios m)[i := f (usuarios m ! i)]\<rparr>"

definition poner_estado :: "nat \<Rightarrow> string \<Rightarrow> Modelo \<Rightarrow> Modelo" where
  "poner_estado i s m = cambiar_usuario i (\<lambda>u. u\<lparr>estado := s\<rparr>) m"

text \<open>The positions of the users in a given state, in list order: the list
  comprehension \<^verbatim>\<open>[u for u in self.usuarios if u.estado == s]\<close>.\<close>

definition con_estado :: "string \<Rightarrow> Modelo \<Rightarrow> nat list" where
  "con_estado s m = filter (\<lambda>j. estado (usuarios m ! j) = s) [0..<length (usuarios m)]"

definition contar_estado :: "string \<Rightarrow> Modelo \<Rightarrow> int" where
  "contar_estado s m = int (length (filter (\<lambda>u. estado u = s) (usuarios m)))"

definition simular_interaccion_usuario :: "nat \<Rightarrow> Modelo \<Rightarrow> rng \<Rightarrow> bool \<times> Modelo \<times> rng" where
  "simular_interaccion_usuario i m g =
     (case random_random g of (r, g1) \<Rightarrow>
        if r < probabilidad_interaccion (usuarios m ! i) then
          (let m1 = cambiar_usuario i
                      (\<lambda>u. u\<lparr>interacciones_totales := interacciones_totales u + 1,
                             tiempo_ultima_interaccion := tiempo_actual m\<rparr>) m
           in case generar_error (chatbot m1) g1 of (hubo_error, g2) \<Rightarrow>
                if hubo_error then
                  (True,
                   cambiar_usuario i (\<lambda>u. u\<lparr>errores_reportados := errores_reportados u + 1\<rparr>)
                     (m1\<lparr>chatbot := (chatbot m1)\<lparr>errores_totales := errores_totales (chatbot m1) + 1\<rparr>\<rparr>),
                   g2)
                else (False, m1, g2))
        else (False, m, g1))"

text \<open>\<^verbatim>\<open>int(influencia * probabilidad_compartir * r)\<close>: two binary64 products, left to
  right, then the truncation. \<^verbatim>\<open>int\<close> raises OverflowError on an infinity and
  ValueError on a NaN (an infinity times zero).\<close>

definition usuarios_afectados :: "Usuario \<Rightarrow> real \<Rightarrow> error + int" where
  "usuarios_afectados u r =
     (let p1 = doble (influencia u * probabilidad_compartir u);
          p = doble (p1 * r)
      in if desborda p1 \<and> r = 0 then Inl ValueError
         else if desborda p1 \<or> desborda p then Inl OverflowError
         else Inr (py_int p))"

definition marcar_consciente :: "Usuario \<Rightarrow> nat \<Rightarrow> Modelo \<Rightarrow> Modelo" where
  "marcar_consciente origen j m =
     (let m1 = poner_estado j ''consciente'' m in
      m1\<lparr>eventos_viralizacion := eventos_viralizacion m1 @
            [\<lparr>tiempo = tiempo_actual m1, usuario_origen = id_usuario origen,
              usuario_afectado = id_usuario (usuarios m1 ! j), tipo_origen = tipo origen\<rparr>]\<rparr>)"

definition simular_propagacion_error :: "nat \<Rightarrow> Modelo \<Rightarrow> rng \<Rightarrow> error + (Modelo \<times> rng)" where
  "simular_propagacion_error i m g =
     (case random_uniform 0.5 1.5 g of (r, g1) \<Rightarrow>
        (case usuarios_afectados (usuarios m ! i) r of
           Inl e \<Rightarrow> Inl e
         | Inr afectados \<Rightarrow>
             (let usuarios_disponibles = con_estado ''inactivo'' m in
              case random_sample usuarios_disponibles
                     (min afectados (int (length usuarios_disponibles))) g1 of
                Inl e \<Rightarrow> Inl e
              | Inr (usuarios_seleccionados, g2) \<Rightarrow>
                  Inr (fold (marcar_consciente (usuarios m ! i)) usuarios_seleccionados m, g2))))"

definition calcular_percepcion_publica :: "Modelo \<Rightarrow> error + real" where
  "calcular_percepcion_publica m =
     (let errores_por_usuario =
            real_of_int (errores_totales (chatbot m)) /
            real_of_int (max 1 (sum_list (map interacciones_totales (usuarios m))))
      in if capacidad_maxima (chatbot m) = 0 then Inl ZeroDivisionError
         else
           (let carga_relativa =
                  real_of_int (capacidad_actual (chatbot m)) / real_of_int (capacidad_maxima (chatbot m));
                percepcion = 1.0 - (errores_por_usuario * 10) - (carga_relativa * 0.3)
            in Inr (max 0.0 (min 1.0 percepcion))))"

subsection \<open>The run\<close>

text \<open>Before the first tick: up to ten users are made \<^verbatim>\<open>'consciente'\<close>, one of them
  attempts an interaction, and a failure there is propagated.\<close>

definition sembrar :: "Modelo \<Rightarrow> rng \<Rightarrow> error + (Modelo \<times> rng)" where
  "sembrar m g =
     (case random_sample [0..<length (usuarios m)] (min 10 (int (length (usuarios m)))) g of
        Inl e \<Rightarrow> Inl e
      | Inr (usuarios_iniciales, g1) \<Rightarrow>
          (let m1 = fold (\<lambda>i. poner_estado i ''consciente'') usuarios_iniciales m in
           if usuarios_iniciales \<noteq> [] then
             (case random_choice usuarios_iniciales g1 of
                Inl e \<Rightarrow> Inl e
              | Inr (usuario_inicial, g2) \<Rightarrow>
                  (case simular_interaccion_usuario usuario_inicial m1 g2 of
                     (hubo_error, m2, g3) \<Rightarrow>
                       if hubo_error then
                         (case simular_propagacion_error usuario_inicial m2 g3 of
                            Inl e \<Rightarrow> Inl e
                          | Inr (m3, g4) \<Rightarrow> Inr (poner_estado usuario_inicial ''activo'' m3, g4))
                       else Inr (m2, g3)))
           else Inr (m1, g1)))"

text \<open>Step 1 of a tick: the users that were \<^verbatim>\<open>'consciente'\<close> when the list was
  built interact in list order; a failure is propagated and its user becomes
  \<^verbatim>\<open>'activo'\<close>.\<close>

fun interacciones :: "nat list \<Rightarrow> Modelo \<Rightarrow> rng \<Rightarrow> error + (Modelo \<times> rng)" where
  "interacciones [] m g = Inr (m, g)"
| "interacciones (i # resto) m g =
     (case simular_interaccion_usuario i m g of
        (hubo_error, m1, g1) \<Rightarrow>
          if hubo_error then
            (case simular_propagacion_error i m1 g1 of
               Inl e \<Rightarrow> Inl e
             | Inr (m2, g2) \<Rightarrow> interacciones resto (poner_estado i ''activo'' m2) g2)
          else interacciones resto m1 g1)"

text \<open>Step 2: every \<^verbatim>\<open>'activo'\<close> user draws once and returns to \<^verbatim>\<open>'consciente'\<close>
  below 0.1. The draw is the right operand of \<^verbatim>\<open>and\<close>: other users draw nothing.\<close>

fun decaer :: "nat list \<Rightarrow> Modelo \<Rightarrow> rng \<Rightarrow> Modelo \<times> rng" where
  "decaer [] m g = (m, g)"
| "decaer (i # resto) m g =
     (if estado (usuarios m ! i) = ''activo'' then
        (case random_random g of (r, g1) \<Rightarrow>
           if r < 0.1 then decaer resto (poner_estado i ''consciente'' m) g1
           else decaer resto m g1)
      else decaer resto m g)"

text \<open>Step 3, the network effect.\<close>

fun activar :: "real \<Rightarrow> nat list \<Rightarrow> Modelo \<Rightarrow> rng \<Rightarrow> Modelo \<times> rng" where
  "activar p [] m g = (m, g)"
| "activar p (i # resto) m g =
     (case random_random g of (r, g1) \<Rightarrow>
        if r < p then activar p resto (poner_estado i ''consciente'' m) g1
        else activar p resto m g1)"

definition efecto_red :: "int \<Rightarrow> int \<Rightarrow> Modelo \<Rightarrow> rng \<Rightarrow> Modelo \<times> rng" where
  "efecto_red t n_activos m g =
     (if t > 0 \<and> t mod 5 = 0 then
        (let usuarios_inactivos = con_estado ''inactivo'' m in
         if usuarios_inactivos \<noteq> [] then
           (let prob_activacion = min 0.1 (real_of_int n_activos / 1000)
            in activar prob_activacion usuarios_inactivos m g)
         else (m, g))
      else (m, g))"

definition registrar_metricas :: "int \<Rightarrow> int \<Rightarrow> Modelo \<Rightarrow> error + Modelo" where
  "registrar_metricas n_activos n_conscientes m =
     (if capacidad_maxima (chatbot m) = 0 then Inl ZeroDivisionError
      else
        (case calcular_percepcion_publica m of
           Inl e \<Rightarrow> Inl e
         | Inr percepcion \<Rightarrow>
             Inr (m\<lparr>metricas := (metricas m)
                   \<lparr>usuarios_activos := usuarios_activos (metricas m) @ [n_activos],
                    usuarios_conscientes := usuarios_conscientes (metricas m) @ [n_conscientes],
                    carga_sistema := carga_sistema (metricas m) @
                      [real_of_int (capacidad_actual (chatbot m)) /
                       real_of_int (capacidad_maxima (chatbot m))],
                    errores_generados := errores_generados (metricas m) @
                      [errores_totales (chatbot m)],
                    tiempo_respuesta := tiempo_respuesta (metricas m) @
                      [tiempo_respuesta_actual (chatbot m)],
                    percepcion_publica := percepcion_publica (metricas m) @ [percepcion]\<rparr>\<rparr>)))"

text \<open>The body of the loop over \<^verbatim>\<open>range(self.tiempo_simulacion)\<close>.\<close>

definition paso :: "int \<Rightarrow> Modelo \<Rightarrow> rng \<Rightarrow> error + (Modelo \<times> rng)" where
  "paso t m g =
     (let m0 = m\<lparr>tiempo_actual := t\<rparr>;
          n_activos = contar_estado ''activo'' m0;
          n_conscientes = contar_estado ''consciente'' m0
      in case actualizar_capacidad (chatbot m0) n_activos of
           Inl e \<Rightarrow> Inl e
         | Inr c \<Rightarrow>
             (let m1 = m0\<lparr>chatbot := c\<rparr> in
              case interacciones (con_estado ''consciente'' m1) m1 g of
                Inl e \<Rightarrow> Inl e
              | Inr (m2, g2) \<Rightarrow>
                  (case decaer [0..<length (usuarios m2)] m2 g2 of
                     (m3, g3) \<Rightarrow>
                       (case efecto_red t n_activos m3 g3 of
                          (m4, g4) \<Rightarrow>
                            (case registrar_metricas n_activos n_conscientes m4 of
                               Inl e \<Rightarrow> Inl e
                             | Inr m5 \<Rightarrow> Inr (m5, g4))))))"

fun pasos :: "int list \<Rightarrow> Modelo \<Rightarrow> rng \<Rightarrow> error + (Modelo \<times> rng)" where
  "pasos [] m g = Inr (m, g)"
| "pasos (t # resto) m g =
     (case paso t m g of Inl e \<Rightarrow> Inl e | Inr (m1, g1) \<Rightarrow> pasos resto m1 g1)"

definition ejecutar_simulacion :: "Modelo \<Rightarrow> rng \<Rightarrow> error + (Modelo \<times> rng)" where
  "ejecutar_simulacion m g =
     (case sembrar m g of
        Inl e \<Rightarrow> Inl e
      | Inr (m1, g1) \<Rightarrow> pasos [0..tiempo_simulacion m1 - 1] m1 g1)"

subsection \<open>Scenarios and reset\<close>

definition resetear_usuario :: "Usuario \<Rightarrow> Usuario" where
  "resetear_usuario u =
     u\<lparr>estado := ''inactivo'', tiempo_ultima_interaccion := 0,
       interacciones_totales := 0, errores_reportados := 0\<rparr>"

definition resetear_simulacion :: "Modelo \<Rightarrow> Modelo" where
  "resetear_simulacion m =
     m\<lparr>tiempo_actual := 0,
       chatbot := (chatbot m)\<lparr>capacidad_actual := 0, errores_totales := 0,
                               tiempo_respuesta_actual := 0.0\<rparr>,
       usuarios := map resetear_usuario (usuarios m),
       metricas := metricas_vacias,
       eventos_viralizacion := []\<rparr>"

record Escenario =
  prob_error :: real
  influencia_mult :: real

record Resultado =
  max_usuarios_activos :: int
  max_carga :: real
  errores_finales :: int
  percepcion_final :: real

text \<open>The dictionary literal of \<^verbatim>\<open>analizar_escenarios\<close>, in insertion order. The
  names are keys only; their accented letter is written without the accent.\<close>

definition escenarios :: "(string \<times> Escenario) list" where
  "escenarios =
     [(''Baja viralizacion'', \<lparr>prob_error = 0.005, influencia_mult = 0.5\<rparr>),
      (''Viralizacion normal'', \<lparr>prob_error = 0.01, influencia_mult = 1.0\<rparr>),
      (''Alta viralizacion'', \<lparr>prob_error = 0.02, influencia_mult = 2.0\<rparr>),
      (''Crisis viral'', \<lparr>prob_error = 0.05, influencia_mult = 5.0\<rparr>)]"

definition configurar_escenario :: "Escenario \<Rightarrow> Modelo \<Rightarrow> Modelo" where
  "configurar_escenario config m =
     m\<lparr>chatbot := (chatbot m)\<lparr>probabilidad_error := prob_error config\<rparr>,
       usuarios := map (\<lambda>u. u\<lparr>influencia := influencia u * influencia_mult config\<rparr>) (usuarios m)\<rparr>"

text \<open>\<^verbatim>\<open>max\<close> of an empty list raises ValueError, \<^verbatim>\<open>[-1]\<close> of an empty list
  IndexError; the four entries are evaluated in the order of the literal.\<close>

definition guardar_resultados :: "Metricas \<Rightarrow> error + Resultado" where
  "guardar_resultados ms =
     (if usuarios_activos ms = [] then Inl ValueError
      else if carga_sistema ms = [] then Inl ValueError
      else if errores_generados ms = [] then Inl IndexError
      else if percepcion_publica ms = [] then Inl IndexError
      else Inr \<lparr>max_usuarios_activos = Max (set (usuarios_activos ms)),
                max_carga = Max (set (carga_sistema ms)),
                errores_finales = last (errores_generados ms),
                percepcion_final = last (percepcion_publica ms)\<rparr>)"

fun analizar_lista ::
  "(string \<times> Escenario) list \<Rightarrow> (string \<rightharpoonup> Resultado) \<Rightarrow> Modelo \<Rightarrow> rng \<Rightarrow>
     error + ((string \<rightharpoonup> Resultado) \<times> Modelo \<times> rng)" where
  "analizar_lista [] resultados m g = Inr (resultados, m, g)"
| "analizar_lista ((nombre, config) # resto) resultados m g =
     (case ejecutar_simulacion (configurar_escenario config m) g of
        Inl e \<Rightarrow> Inl e
      | Inr (m1, g1) \<Rightarrow>
          (case guardar_resultados (metricas m1) of
             Inl e \<Rightarrow> Inl e
           | Inr r \<Rightarrow>
               analizar_lista resto (resultados(nombre \<mapsto> r)) (resetear_simulacion m1) g1))"

definition analizar_escenarios ::
  "Modelo \<Rightarrow> rng \<Rightarrow> error + ((string \<rightharpoonup> Resultado) \<times> Modelo \<times> rng)" where
  "analizar_escenarios m g = analizar_lista escenarios Map.empty m g"

subsection \<open>The claim of the specification about the number of affected users\<close>


subsection \<open>Relating the states of one run\<close>

text \<open>\<open>sigue u u'\<close>: the user \<open>u'\<close> is a later state of \<open>u\<close> within a run.
  \<open>avanza k m m'\<close>: the model \<open>m'\<close> is a later state of \<open>m\<close> within a run, with
  \<open>k\<close> more entries in every metric series.\<close>

definition sigue :: "Usuario \<Rightarrow> Usuario \<Rightarrow> bool" where
  "sigue u u' \<longleftrightarrow>
     id_usuario u' = id_usuario u \<and> tipo u' = tipo u
     \<and> probabilidad_interaccion u' = probabilidad_interaccion u
     \<and> probabilidad_compartir u' = probabilidad_compartir u
     \<and> influencia u' = influencia u
     \<and> (estado u \<noteq> ''inactivo'' \<longrightarrow> estado u' \<noteq> ''inactivo'')
     \<and> interacciones_totales u \<le> interacciones_totales u'
     \<and> errores_reportados u \<le> errores_reportados u'"

definition extiende :: "nat \<Rightarrow> 'a list \<Rightarrow> 'a list \<Rightarrow> bool" where
  "extiende k xs ys \<longleftrightarrow> prefix xs ys \<and> length ys = length xs + k"

definition avanza :: "nat \<Rightarrow> Modelo \<Rightarrow> Modelo \<Rightarrow> bool" where
  "avanza k m m' \<longleftrightarrow>
     list_all2 sigue (usuarios m) (usuarios m')
     \<and> num_usuarios m' = num_usuarios m
     \<and> tiempo_simulacion m' = tiempo_simulacion m
     \<and> capacidad_maxima (chatbot m') = capacidad_maxima (chatbot m)
     \<and> tiempo_respuesta_base (chatbot m') = tiempo_respuesta_base (chatbot m)
     \<and> probabilidad_error (chatbot m') = probabilidad_error (chatbot m)
     \<and> errores_totales (chatbot m) \<le> errores_totales (chatbot m')
     \<and> prefix (eventos_viralizacion m) (eventos_viralizacion m')
     \<and> extiende k (usuarios_activos (metricas m)) (usuarios_activos (metricas m'))
     \<and> extiende k (usuarios_conscientes (metricas m)) (usuarios_conscientes (metricas m'))
     \<and> extiende k (carga_sistema (metricas m)) (carga_sistema (metricas m'))
     \<and> extiende k (errores_generados (metricas m)) (errores_generados (metricas m'))
     \<and> extiende k (tiempo_respuesta (metricas m)) (tiempo_respuesta (metricas m'))
     \<and> extiende k (percepcion_publica (metricas m)) (percepcion_publica (metricas m'))"

subsection \<open>Events and the specification's count, as predicates\<close>



subsection \<open>Example states\<close>

definition usuario_ej :: "int \<Rightarrow> string \<Rightarrow> Usuario" where
  "usuario_ej i s =
     \<lparr>id_usuario = i, tipo = ''critico'', probabilidad_interaccion = 0.5,
      probabilidad_compartir = 0.5, influencia = 3.5, estado = s,
      tiempo_ultima_interaccion = 0, interacciones_totales = 0, errores_reportados = 0\<rparr>"

definition modelo_ej :: Modelo where
  "modelo_ej =
     \<lparr>num_usuarios = 3, tiempo_simulacion = 1, tiempo_actual = 0,
      chatbot = Chatbot_init 100 1.0 0.01,
      usuarios = [usuario_ej 0 ''consciente'', usuario_ej 1 ''inactivo'', usuario_ej 2 ''inactivo''],
      metricas = metricas_vacias, eventos_viralizacion = []\<rparr>"

text \<open>A model as an earlier run has left it.\<close>

definition modelo_usado :: Modelo where
  "modelo_usado =
     \<lparr>num_usuarios = 2, tiempo_simulacion = 1, tiempo_actual = 7,
      chatbot = (Chatbot_init 4 1.0 0.01)
        \<lparr>capacidad_actual := 2, errores_totales := 3, tiempo_respuesta_actual := 1.25\<rparr>,
      usuarios = [(usuario_ej 0 ''activo'')\<lparr>interacciones_totales := 5, errores_reportados := 3,
                     tiempo_ultima_interaccion := 7\<rparr>,
                  (usuario_ej 1 ''consciente'')\<lparr>interacciones_totales := 1\<rparr>],
      metricas = \<lparr>usuarios_activos = [7], usuarios_conscientes = [1], carga_sistema = [0.5],
                  errores_generados = [3], tiempo_respuesta = [1.25], percepcion_publica = [0]\<rparr>,
      eventos_viralizacion =
        [\<lparr>tiempo = 2, usuario_origen = 0, usuario_afectado = 1, tipo_origen = ''critico''\<rparr>]\<rparr>"

text \<open>Two oracles: every draw 1/2, and every draw 1 (no interaction, failure, decay or
  activation passes its threshold).\<close>

definition oraculo_medio :: rng where
  "oraculo_medio = (\<lambda>n. 1 / 2)"

definition oraculo_uno :: rng where
  "oraculo_uno = (\<lambda>n. 1)"

text \<open>The example model after the seeding and after one run of one tick, with every draw 1.\<close>

definition modelo_usado_despues :: Modelo where
  "modelo_usado_despues =
     \<lparr>num_usuarios = 2, tiempo_simulacion = 1, tiempo_actual = 0,
      chatbot = (Chatbot_init 4 1.0 0.01)
        \<lparr>capacidad_actual := 0, errores_totales := 3, tiempo_respuesta_actual := 1\<rparr>,
      usuarios = [(usuario_ej 0 ''consciente'')\<lparr>interacciones_totales := 5, errores_reportados := 3,
                     tiempo_ultima_interaccion := 7\<rparr>,
                  (usuario_ej 1 ''consciente'')\<lparr>interacciones_totales := 1\<rparr>],
      metricas = \<lparr>usuarios_activos = [7, 0], usuarios_conscientes = [1, 2],
                  carga_sistema = [0.5, 0], errores_generados = [3, 3],
                  tiempo_respuesta = [1.25, 1], percepcion_publica = [0, 0]\<rparr>,
      eventos_viralizacion =
        [\<lparr>tiempo = 2, usuario_origen = 0, usuario_afectado = 1, tipo_origen = ''critico''\<rparr>]\<rparr>"

definition modelo_sembrado :: Modelo where
  "modelo_sembrado =
     modelo_usado\<lparr>usuarios :=
       [(usuario_ej 0 ''consciente'')\<lparr>interacciones_totales := 5, errores_reportados := 3,
                     tiempo_ultima_interaccion := 7\<rparr>,
        (usuario_ej 1 ''consciente'')\<lparr>interacciones_totales := 1\<rparr>]\<rparr>"

definition no_vuelve :: "Usuario \<Rightarrow> Usuario \<Rightarrow> bool" where
  "no_vuelve u u' \<longleftrightarrow> (estado u \<noteq> ''inactivo'' \<longrightarrow> estado u' \<noteq> ''inactivo'')"

text \<open>An oracle whose draws are all 0: every threshold above zero is passed.\<close>

definition oraculo_cero :: rng where
  "oraculo_cero = (\<lambda>n. 0)"

text \<open>The states on which a run with every draw 1 is followed exactly: a capacity other
  than zero, interaction probabilities at most 1, a budget of one tick.\<close>

definition estable :: "Modelo \<Rightarrow> bool" where
  "estable m \<longleftrightarrow>
     capacidad_maxima (chatbot m) \<noteq> 0
     \<and> list_all (\<lambda>u. probabilidad_interaccion u \<le> 1) (usuarios m)
     \<and> tiempo_simulacion m = 1"

text \<open>The specification's sentence on an invalid configuration: the construction
  fails.\<close>

definition falla_al_construir :: "int \<Rightarrow> int \<Rightarrow> int \<Rightarrow> rng \<Rightarrow> bool" where
  "falla_al_construir n cap t g =
     (case ModeloViralizacion_init n cap t g of Inl e \<Rightarrow> True | Inr x \<Rightarrow> False)"

section \<open>Properties\<close>

subsection \<open>States of a run: auxiliary facts\<close>

lemma sigue_refl: "sigue u u"
  by (simp add: sigue_def)

lemma sigue_trans: "sigue u v \<Longrightarrow> sigue v w \<Longrightarrow> sigue u w"
  by (auto simp: sigue_def)

lemma extiende_refl: "extiende 0 xs xs"
  by (simp add: extiende_def)

lemma extiende_trans: "extiende j xs ys \<Longrightarrow> extiende k ys zs \<Longrightarrow> extiende (j + k) xs zs"
  by (auto simp: extiende_def)

lemma extiende_snoc: "extiende 1 xs (xs @ [x])"
  by (simp add: extiende_def)

lemma avanza_refl: "avanza 0 m m"
  by (simp add: avanza_def extiende_refl list_all2_refl sigue_refl)

lemma avanza_trans:
  assumes "avanza j m m1" and "avanza k m1 m2"
  shows "avanza (j + k) m m2"
proof -
  have "list_all2 sigue (usuarios m) (usuarios m2)"
    using assms list_all2_trans [of sigue sigue sigue "usuarios m" "usuarios m1" "usuarios m2"]
      sigue_trans by (auto simp: avanza_def)
  moreover have "prefix (eventos_viralizacion m) (eventos_viralizacion m2)"
    using assms by (auto simp: avanza_def)
  ultimately show ?thesis
    using assms unfolding avanza_def
    by (auto intro: extiende_trans)
qed

lemma avanza_trans0: "avanza 0 m m1 \<Longrightarrow> avanza k m1 m2 \<Longrightarrow> avanza k m m2"
  using avanza_trans [of 0 m m1 k m2] by simp

lemma avanza_cambiar_usuario:
  assumes "\<And>u. sigue u (f u)"
  shows "avanza 0 m (cambiar_usuario i f m)"
proof -
  have "list_all2 sigue (usuarios m) ((usuarios m)[i := f (usuarios m ! i)])"
  proof (cases "i < length (usuarios m)")
    case True
    then show ?thesis
      using assms sigue_refl by (auto simp: list_all2_conv_all_nth nth_list_update)
  next
    case False
    then have "(usuarios m)[i := f (usuarios m ! i)] = usuarios m"
      by (simp add: list_update_beyond)
    then show ?thesis
      using list_all2_refl [of sigue "usuarios m"] sigue_refl by simp
  qed
  then show ?thesis
    by (simp add: avanza_def cambiar_usuario_def extiende_refl)
qed

lemma avanza_poner_estado:
  "s \<noteq> ''inactivo'' \<Longrightarrow> avanza 0 m (poner_estado i s m)"
  unfolding poner_estado_def by (rule avanza_cambiar_usuario) (simp add: sigue_def)

lemma avanza_interaccion:
  "simular_interaccion_usuario i m g = (b, m', g') \<Longrightarrow> avanza 0 m m'"
proof -
  assume h: "simular_interaccion_usuario i m g = (b, m', g')"
  let ?m1 = "cambiar_usuario i
                      (\<lambda>u. u\<lparr>interacciones_totales := interacciones_totales u + 1,
                             tiempo_ultima_interaccion := tiempo_actual m\<rparr>) m"
  let ?m2 = "?m1\<lparr>chatbot := (chatbot ?m1)\<lparr>errores_totales := errores_totales (chatbot ?m1) + 1\<rparr>\<rparr>"
  let ?m3 = "cambiar_usuario i (\<lambda>u. u\<lparr>errores_reportados := errores_reportados u + 1\<rparr>) ?m2"
  have a1: "avanza 0 m ?m1"
    by (rule avanza_cambiar_usuario) (simp add: sigue_def)
  have a2: "avanza 0 ?m1 ?m2"
    by (simp add: avanza_def extiende_refl list_all2_refl sigue_refl)
  have a3: "avanza 0 ?m2 ?m3"
    by (rule avanza_cambiar_usuario) (simp add: sigue_def)
  have a13: "avanza 0 m ?m3"
    using a1 a2 a3 avanza_trans0 by blast
  from h have "m' = m \<or> m' = ?m1 \<or> m' = ?m3"
    by (auto simp: simular_interaccion_usuario_def Let_def split: prod.splits if_splits)
  then show ?thesis using a1 a13 avanza_refl by auto
qed

subsection \<open>The responder\<close>

text \<open>
  Claim C6. For a non-negative count of active users and a positive maximum capacity,
  \<^const>\<open>actualizar_capacidad\<close> returns the responder with the current load set to
  the minimum of the count and the maximum capacity and the response time set to the base
  time times one plus the square of the relative load; no other field changes. The load
  never exceeds the capacity, and with capacity 1 the relative load is 0 or 1 and the
  response time is the base time or twice the base time.
\<close>

theorem actualizar_capacidad_carga:
  assumes "0 \<le> n" and "0 < capacidad_maxima c"
  shows "\<exists>c'. actualizar_capacidad c n = Inr c'
           \<and> c' = c\<lparr>capacidad_actual := capacidad_actual c',
                    tiempo_respuesta_actual := tiempo_respuesta_actual c'\<rparr>
           \<and> capacidad_actual c' = min n (capacidad_maxima c)
           \<and> tiempo_respuesta_actual c' =
               tiempo_respuesta_base c *
               (1 + (real_of_int (capacidad_actual c') / real_of_int (capacidad_maxima c)) ^ 2)
           \<and> capacidad_actual c' \<le> capacidad_maxima c'
           \<and> (capacidad_maxima c = 1 \<longrightarrow>
                (real_of_int (capacidad_actual c') / real_of_int (capacidad_maxima c') = 0
                   \<and> tiempo_respuesta_actual c' = tiempo_respuesta_base c)
                \<or> (real_of_int (capacidad_actual c') / real_of_int (capacidad_maxima c') = 1
                   \<and> tiempo_respuesta_actual c' = 2 * tiempo_respuesta_base c))"
proof -
  define c' where "c' = c\<lparr>capacidad_actual := min n (capacidad_maxima c),
                  tiempo_respuesta_actual :=
                    tiempo_respuesta_base c *
                    (1 + (real_of_int (min n (capacidad_maxima c)) / real_of_int (capacidad_maxima c)) ^ 2)\<rparr>"
  have eq: "actualizar_capacidad c n = Inr c'"
    using assms(2) by (simp add: actualizar_capacidad_def Let_def c'_def)
  have fields: "capacidad_actual c' = min n (capacidad_maxima c)"
    "capacidad_maxima c' = capacidad_maxima c"
    "tiempo_respuesta_actual c' = tiempo_respuesta_base c *
               (1 + (real_of_int (capacidad_actual c') / real_of_int (capacidad_maxima c)) ^ 2)"
    "c' = c\<lparr>capacidad_actual := capacidad_actual c',
                    tiempo_respuesta_actual := tiempo_respuesta_actual c'\<rparr>"
    by (simp_all add: c'_def)
  have le: "capacidad_actual c' \<le> capacidad_maxima c'"
    by (simp add: fields(1,2))
  have one: "(real_of_int (capacidad_actual c') / real_of_int (capacidad_maxima c') = 0
                   \<and> tiempo_respuesta_actual c' = tiempo_respuesta_base c)
                \<or> (real_of_int (capacidad_actual c') / real_of_int (capacidad_maxima c') = 1
                   \<and> tiempo_respuesta_actual c' = 2 * tiempo_respuesta_base c)"
    if c1: "capacidad_maxima c = 1"
  proof (cases "n = 0")
    case True
    then show ?thesis using c1 by (simp add: fields(1,2,3))
  next
    case False
    with assms(1) have "min n 1 = 1" by simp
    then show ?thesis using c1 by (simp add: fields(1,2,3))
  qed
  from eq le one fields show ?thesis by blast
qed

theorem actualizar_capacidad_carga_witness:
  "(0::int) \<le> 3 \<and> 0 < capacidad_maxima (Chatbot_init 1 1.0 0.01)
   \<and> actualizar_capacidad (Chatbot_init 1 1.0 0.01) 3 =
       Inr ((Chatbot_init 1 1.0 0.01)\<lparr>capacidad_actual := 1, tiempo_respuesta_actual := 2\<rparr>)"
  using actualizar_capacidad_carga [of 3 "Chatbot_init 1 1.0 0.01"]
  by (simp add: Chatbot_init_def actualizar_capacidad_def)

subsection \<open>Public perception\<close>

text \<open>
  Claim C5. With a maximum capacity other than zero (the responder of the data model has
  a positive one), \<^const>\<open>calcular_percepcion_publica\<close> returns
  \<open>1 - 10 * (failures / max 1 (sum of the users' interactions)) - 0.3 * (load / capacity)\<close>
  clamped to the interval from 0 to 1. The denominator \<open>max 1 \<dots>\<close> is never zero, so
  a state without interactions divides by one, and the result lies between 0 and 1.
\<close>

theorem calcular_percepcion_publica_formula:
  assumes "capacidad_maxima (chatbot m) \<noteq> 0"
  shows "\<exists>p. calcular_percepcion_publica m = Inr p
           \<and> p = max 0 (min 1
                 (1 - 10 * (real_of_int (errores_totales (chatbot m)) /
                            real_of_int (max 1 (sum_list (map interacciones_totales (usuarios m)))))
                    - 0.3 * (real_of_int (capacidad_actual (chatbot m)) /
                             real_of_int (capacidad_maxima (chatbot m)))))
           \<and> max 1 (sum_list (map interacciones_totales (usuarios m))) \<noteq> 0
           \<and> 0 \<le> p \<and> p \<le> 1"
  using assms by (simp add: calcular_percepcion_publica_def Let_def algebra_simps)

theorem calcular_percepcion_publica_formula_witness:
  "capacidad_maxima (chatbot modelo_ej) \<noteq> 0
   \<and> sum_list (map interacciones_totales (usuarios modelo_ej)) = 0
   \<and> calcular_percepcion_publica modelo_ej = Inr 1
   \<and> calcular_percepcion_publica modelo_usado = Inr 0"
  using calcular_percepcion_publica_formula [of modelo_ej]
    calcular_percepcion_publica_formula [of modelo_usado]
  by (simp add: modelo_ej_def modelo_usado_def usuario_ej_def Chatbot_init_def
      calcular_percepcion_publica_def)

subsection \<open>Reset\<close>

text \<open>
  Claim C4. After \<^const>\<open>resetear_simulacion\<close>, from any model: every user is
  \<^verbatim>\<open>'inactivo'\<close> and has its three counters at zero; the responder's current load,
  failure total and response time are zero; the six metric series and the event log are
  empty; and the users' influence, interaction probability, share probability, id and
  type are, position by position, the ones before the reset.
\<close>

theorem resetear_simulacion_estado:
  "(\<forall>u \<in> set (usuarios (resetear_simulacion m)).
       estado u = ''inactivo'' \<and> tiempo_ultima_interaccion u = 0
       \<and> interacciones_totales u = 0 \<and> errores_reportados u = 0)
   \<and> capacidad_actual (chatbot (resetear_simulacion m)) = 0
   \<and> errores_totales (chatbot (resetear_simulacion m)) = 0
   \<and> tiempo_respuesta_actual (chatbot (resetear_simulacion m)) = 0
   \<and> usuarios_activos (metricas (resetear_simulacion m)) = []
   \<and> usuarios_conscientes (metricas (resetear_simulacion m)) = []
   \<and> carga_sistema (metricas (resetear_simulacion m)) = []
   \<and> errores_generados (metricas (resetear_simulacion m)) = []
   \<and> tiempo_respuesta (metricas (resetear_simulacion m)) = []
   \<and> percepcion_publica (metricas (resetear_simulacion m)) = []
   \<and> eventos_viralizacion (resetear_simulacion m) = []
   \<and> map influencia (usuarios (resetear_simulacion m)) = map influencia (usuarios m)
   \<and> map probabilidad_interaccion (usuarios (resetear_simulacion m)) =
       map probabilidad_interaccion (usuarios m)
   \<and> map probabilidad_compartir (usuarios (resetear_simulacion m)) =
       map probabilidad_compartir (usuarios m)
   \<and> map id_usuario (usuarios (resetear_simulacion m)) = map id_usuario (usuarios m)
   \<and> map tipo (usuarios (resetear_simulacion m)) = map tipo (usuarios m)"
  by (simp add: resetear_simulacion_def resetear_usuario_def metricas_vacias_def comp_def)

theorem resetear_simulacion_estado_witness:
  "map estado (usuarios (resetear_simulacion modelo_usado)) = [''inactivo'', ''inactivo'']
   \<and> map interacciones_totales (usuarios (resetear_simulacion modelo_usado)) = [0, 0]
   \<and> map influencia (usuarios (resetear_simulacion modelo_usado)) = [3.5, 3.5]
   \<and> map influencia (usuarios modelo_usado) = [3.5, 3.5]
   \<and> errores_totales (chatbot modelo_usado) = 3
   \<and> errores_totales (chatbot (resetear_simulacion modelo_usado)) = 0
   \<and> eventos_viralizacion modelo_usado \<noteq> []
   \<and> eventos_viralizacion (resetear_simulacion modelo_usado) = []"
  using resetear_simulacion_estado [of modelo_usado]
  by (simp add: modelo_usado_def usuario_ej_def resetear_simulacion_def resetear_usuario_def
      Chatbot_init_def)

subsection \<open>Propagation\<close>






lemma avanza_marcar: "avanza 0 m (marcar_consciente origen j m)"
proof -
  have a: "avanza 0 m (poner_estado j ''consciente'' m)"
    by (rule avanza_poner_estado) simp
  have b: "avanza 0 (poner_estado j ''consciente'' m) (marcar_consciente origen j m)"
    by (simp add: marcar_consciente_def Let_def avanza_def extiende_refl list_all2_refl sigue_refl)
  from a b show ?thesis by (rule avanza_trans0)
qed

lemma avanza_fold_marcar: "avanza 0 m (fold (marcar_consciente origen) sel m)"
proof (induction sel arbitrary: m)
  case Nil
  show ?case by (simp add: avanza_refl)
next
  case (Cons j sel)
  show ?case
    using avanza_trans0 [OF avanza_marcar Cons.IH] by simp
qed

lemma avanza_propagacion:
  "simular_propagacion_error i m g = Inr (m', g') \<Longrightarrow> avanza 0 m m'"
  by (auto simp: simular_propagacion_error_def Let_def avanza_fold_marcar
      split: prod.splits sum.splits)

text \<open>The exact effect of marking a list of distinct positions.\<close>

lemma marcar_campos:
  "length (usuarios (marcar_consciente origen j m)) = length (usuarios m)"
  "tiempo_actual (marcar_consciente origen j m) = tiempo_actual m"
  "chatbot (marcar_consciente origen j m) = chatbot m"
  "metricas (marcar_consciente origen j m) = metricas m"
  "num_usuarios (marcar_consciente origen j m) = num_usuarios m"
  "tiempo_simulacion (marcar_consciente origen j m) = tiempo_simulacion m"
  "usuarios (marcar_consciente origen j m) =
     (usuarios m)[j := (usuarios m ! j)\<lparr>estado := ''consciente''\<rparr>]"
  by (simp_all add: marcar_consciente_def poner_estado_def cambiar_usuario_def Let_def)



lemma con_estado_set:
  "set (con_estado s m) = {j. j < length (usuarios m) \<and> estado (usuarios m ! j) = s}"
  by (auto simp: con_estado_def)

lemma con_estado_distinct: "distinct (con_estado s m)"
  by (simp add: con_estado_def)


text \<open>Evaluating the rounding: within one binade the exponent is known.\<close>

lemma pot2_powr: "pot2 k = 2 powr real_of_int k"
  by (simp add: pot2_def powr_real_of_int inverse_eq_divide)

lemma pot2_pos: "0 < pot2 k"
  by (simp add: pot2_powr)

lemma exponente_entre:
  assumes "pot2 e \<le> \<bar>x\<bar>" and "\<bar>x\<bar> < pot2 (e + 1)" and "- 1022 \<le> e"
  shows "exponente x = e"
proof -
  have pos: "0 < \<bar>x\<bar>" using assms(1) pot2_pos [of e] by linarith
  have "\<lfloor>log 2 \<bar>x\<bar>\<rfloor> = e"
    using assms(1,2) floor_log_eq_powr_iff [OF pos, of 2 e] by (simp add: pot2_powr)
  then show ?thesis using assms(3) by (simp add: exponente_def)
qed

lemma doble_calculo:
  assumes "pot2 e \<le> \<bar>x\<bar>" and "\<bar>x\<bar> < pot2 (e + 1)" and "- 1022 \<le> e"
  shows "doble x = real_of_int (redondeo_par (x / pot2 (e - 52))) * pot2 (e - 52)"
proof -
  have "x \<noteq> 0" using assms(1) pot2_pos [of e] by auto
  then show ?thesis by (simp add: doble_def exponente_entre [OF assms])
qed




text \<open>A product that the machine rounds up to an integer: \<open>30.0 * 0.6666666666666666\<close>
  is \<open>20.0\<close> in binary64, and twenty users are reached, where the product over the
  reals truncates to nineteen.\<close>

lemma doble_redondea_a_20: "doble (30 * (6004799503160661 / 2 ^ 53)) = 20"
  using doble_calculo [of 4 "30 * (6004799503160661 / 2 ^ 53)"]
  by (simp add: pot2_def redondeo_par_def)

lemma doble_20: "doble 20 = 20"
  using doble_calculo [of 4 20] by (simp add: pot2_def redondeo_par_def)

lemma usuarios_afectados_valor:
  assumes "doble (influencia u * probabilidad_compartir u) = p1" and "doble (p1 * r) = p"
    and "\<bar>p1\<bar> < 2 ^ 1024" and "\<bar>p\<bar> < 2 ^ 1024"
  shows "usuarios_afectados u r = Inr (py_int p)"
  using assms(3,4) by (simp add: usuarios_afectados_def assms(1,2) desborda_def Let_def)

lemma menor_que_2_1024: "\<bar>x\<bar> \<le> 32 \<Longrightarrow> \<bar>x::real\<bar> < 2 ^ 1024"
proof -
  assume "\<bar>x\<bar> \<le> 32"
  moreover have "(32::real) = 2 ^ 5" by simp
  moreover have "(2::real) ^ 5 < 2 ^ 1024" by (rule power_strict_increasing) simp_all
  ultimately show ?thesis by linarith
qed

lemma usuarios_afectados_redondea:
  "usuarios_afectados
     \<lparr>id_usuario = 0, tipo = ''influencer'', probabilidad_interaccion = 1 / 4,
      probabilidad_compartir = 6004799503160661 / 2 ^ 53, influencia = 30,
      estado = ''consciente'', tiempo_ultima_interaccion = 0, interacciones_totales = 0,
      errores_reportados = 0\<rparr> 1 = Inr 20
   \<and> py_int (30 * (6004799503160661 / 2 ^ 53) * 1) = 19"
proof -
  let ?u = "\<lparr>id_usuario = 0, tipo = ''influencer'', probabilidad_interaccion = 1 / 4,
      probabilidad_compartir = 6004799503160661 / 2 ^ 53, influencia = 30,
      estado = ''consciente'', tiempo_ultima_interaccion = 0, interacciones_totales = 0,
      errores_reportados = 0\<rparr>"
  have "influencia ?u * probabilidad_compartir ?u = 30 * (6004799503160661 / 2 ^ 53)"
    by (simp only: Usuario.simps)
  then have a: "doble (influencia ?u * probabilidad_compartir ?u) = 20"
    by (simp only: doble_redondea_a_20)
  have b: "doble (20 * 1) = 20"
    by (simp only: mult_1_right doble_20)
  have "usuarios_afectados ?u 1 = Inr (py_int 20)"
    by (rule usuarios_afectados_valor [OF a b]) (rule menor_que_2_1024, simp)+
  moreover have "py_int 20 = 20" by (simp add: py_int_def)
  moreover have "py_int (30 * (6004799503160661 / 2 ^ 53) * 1) = 19"
    by (simp add: py_int_def)
  ultimately show ?thesis by simp
qed







lemma oraculo_medio_avanza: "(\<lambda>n. oraculo_medio (Suc n)) = oraculo_medio"
  by (simp add: oraculo_medio_def)






subsection \<open>Every step of a run advances the state\<close>

lemma avanza_fold_poner:
  "s \<noteq> ''inactivo'' \<Longrightarrow> avanza 0 m (fold (\<lambda>i. poner_estado i s) sel m)"
proof (induction sel arbitrary: m)
  case Nil
  show ?case by (simp add: avanza_refl)
next
  case (Cons j sel)
  show ?case
    using avanza_trans0 [OF avanza_poner_estado [OF Cons.prems] Cons.IH [OF Cons.prems]]
    by simp
qed

lemma avanza_interaccion_propagacion:
  assumes "simular_interaccion_usuario i m g = (b, m1, g1)"
    and "simular_propagacion_error i m1 g1 = Inr (m2, g2)"
  shows "avanza 0 m (poner_estado i ''activo'' m2)"
proof -
  have a: "avanza 0 m m1" using assms(1) by (rule avanza_interaccion)
  have b: "avanza 0 m1 m2" using assms(2) by (rule avanza_propagacion)
  have c: "avanza 0 m2 (poner_estado i ''activo'' m2)"
    by (rule avanza_poner_estado) simp
  from a b c show ?thesis by (blast intro: avanza_trans0)
qed

lemma avanza_sembrar: "sembrar m g = Inr (m', g') \<Longrightarrow> avanza 0 m m'"
proof -
  assume h: "sembrar m g = Inr (m', g')"
  obtain ini g1 where s: "random_sample [0..<length (usuarios m)]
      (min 10 (int (length (usuarios m)))) g = Inr (ini, g1)"
    using h by (auto simp: sembrar_def split: sum.splits)
  let ?m1 = "fold (\<lambda>i. poner_estado i ''consciente'') ini m"
  have a: "avanza 0 m ?m1" by (rule avanza_fold_poner) simp
  show ?thesis
  proof (cases "ini = []")
    case True
    then show ?thesis using h s a by (simp add: sembrar_def)
  next
    case False
    then obtain u g2 where c: "random_choice ini g1 = Inr (u, g2)"
      using h s by (auto simp: sembrar_def Let_def split: sum.splits)
    obtain b m2 g3 where i: "simular_interaccion_usuario u ?m1 g2 = (b, m2, g3)"
      by (cases "simular_interaccion_usuario u ?m1 g2") auto
    show ?thesis
    proof (cases b)
      case True
      then obtain m3 where p: "simular_propagacion_error u m2 g3 = Inr (m3, g')"
        and m': "m' = poner_estado u ''activo'' m3"
        using h s c i False by (auto simp: sembrar_def Let_def split: sum.splits)
      from avanza_interaccion_propagacion [OF i p] a m'
      show ?thesis by (blast intro: avanza_trans0)
    next
      case False
      then have "m' = m2" using h s c i \<open>ini \<noteq> []\<close> by (simp add: sembrar_def Let_def)
      with avanza_interaccion [OF i] a show ?thesis by (blast intro: avanza_trans0)
    qed
  qed
qed

lemma avanza_interacciones:
  "interacciones is m g = Inr (m', g') \<Longrightarrow> avanza 0 m m'"
proof (induction "is" arbitrary: m g)
  case Nil
  then show ?case by (simp add: avanza_refl)
next
  case (Cons i resto)
  obtain b m1 g1 where i: "simular_interaccion_usuario i m g = (b, m1, g1)"
    by (cases "simular_interaccion_usuario i m g") auto
  show ?case
  proof (cases b)
    case True
    then obtain m2 g2 where p: "simular_propagacion_error i m1 g1 = Inr (m2, g2)"
      and r: "interacciones resto (poner_estado i ''activo'' m2) g2 = Inr (m', g')"
      using Cons.prems i by (auto split: sum.splits)
    from avanza_interaccion_propagacion [OF i p] Cons.IH [OF r]
    show ?thesis by (rule avanza_trans0)
  next
    case False
    then have r: "interacciones resto m1 g1 = Inr (m', g')"
      using Cons.prems i by simp
    from avanza_interaccion [OF i] Cons.IH [OF r]
    show ?thesis by (rule avanza_trans0)
  qed
qed

lemma avanza_decaer: "decaer is m g = (m', g') \<Longrightarrow> avanza 0 m m'"
proof (induction "is" arbitrary: m g)
  case Nil
  then show ?case by (simp add: avanza_refl)
next
  case (Cons i resto)
  have p: "avanza 0 m (poner_estado i ''consciente'' m)"
    by (rule avanza_poner_estado) simp
  from Cons.prems have
    "decaer resto m g = (m', g')
     \<or> decaer resto m (\<lambda>n. g (Suc n)) = (m', g')
     \<or> decaer resto (poner_estado i ''consciente'' m) (\<lambda>n. g (Suc n)) = (m', g')"
    by (auto simp: random_random_def split: if_splits)
  then show ?case
    using Cons.IH p by (blast intro: avanza_trans0)
qed

lemma avanza_activar: "activar q is m g = (m', g') \<Longrightarrow> avanza 0 m m'"
proof (induction "is" arbitrary: m g)
  case Nil
  then show ?case by (simp add: avanza_refl)
next
  case (Cons i resto)
  have p: "avanza 0 m (poner_estado i ''consciente'' m)"
    by (rule avanza_poner_estado) simp
  from Cons.prems have
    "activar q resto m (\<lambda>n. g (Suc n)) = (m', g')
     \<or> activar q resto (poner_estado i ''consciente'' m) (\<lambda>n. g (Suc n)) = (m', g')"
    by (auto simp: random_random_def split: if_splits)
  then show ?case
    using Cons.IH p by (blast intro: avanza_trans0)
qed

lemma avanza_efecto_red: "efecto_red t n m g = (m', g') \<Longrightarrow> avanza 0 m m'"
  by (auto simp: efecto_red_def Let_def avanza_refl avanza_activar split: if_splits)

lemma actualizar_capacidad_campos:
  assumes "actualizar_capacidad c n = Inr c'"
  shows "capacidad_maxima c' = capacidad_maxima c"
    and "tiempo_respuesta_base c' = tiempo_respuesta_base c"
    and "probabilidad_error c' = probabilidad_error c"
    and "errores_totales c' = errores_totales c"
    and "capacidad_maxima c \<noteq> 0"
  using assms by (auto simp: actualizar_capacidad_def Let_def split: if_splits)

lemma avanza_actualizar:
  assumes "actualizar_capacidad (chatbot m) n = Inr c"
  shows "avanza 0 m (m\<lparr>tiempo_actual := t, chatbot := c\<rparr>)"
  using actualizar_capacidad_campos [OF assms]
  by (simp add: avanza_def extiende_refl list_all2_refl sigue_refl)

lemma avanza_registrar:
  assumes "registrar_metricas a b m = Inr m'"
  shows "avanza 1 m m'"
proof -
  obtain p where m': "m' = m\<lparr>metricas := (metricas m)
                   \<lparr>usuarios_activos := usuarios_activos (metricas m) @ [a],
                    usuarios_conscientes := usuarios_conscientes (metricas m) @ [b],
                    carga_sistema := carga_sistema (metricas m) @
                      [real_of_int (capacidad_actual (chatbot m)) /
                       real_of_int (capacidad_maxima (chatbot m))],
                    errores_generados := errores_generados (metricas m) @
                      [errores_totales (chatbot m)],
                    tiempo_respuesta := tiempo_respuesta (metricas m) @
                      [tiempo_respuesta_actual (chatbot m)],
                    percepcion_publica := percepcion_publica (metricas m) @ [p]\<rparr>\<rparr>"
    using assms by (auto simp: registrar_metricas_def split: if_splits sum.splits)
  show ?thesis
    unfolding m' by (simp add: avanza_def extiende_def list_all2_refl sigue_refl)
qed

lemma avanza_paso:
  assumes "paso t m g = Inr (m', g')"
  shows "avanza 1 m m'"
proof -
  let ?n = "contar_estado ''activo'' m"
  obtain c where c: "actualizar_capacidad (chatbot m) ?n = Inr c"
    using assms by (auto simp: paso_def Let_def contar_estado_def split: sum.splits)
  let ?m1 = "m\<lparr>tiempo_actual := t, chatbot := c\<rparr>"
  obtain m2 g2 where i: "interacciones (con_estado ''consciente'' ?m1) ?m1 g = Inr (m2, g2)"
    using assms c by (auto simp: paso_def Let_def contar_estado_def split: sum.splits)
  obtain m3 g3 where d: "decaer [0..<length (usuarios m2)] m2 g2 = (m3, g3)"
    by (cases "decaer [0..<length (usuarios m2)] m2 g2")
  obtain m4 g4 where e: "efecto_red t ?n m3 g3 = (m4, g4)"
    by (cases "efecto_red t ?n m3 g3")
  have r: "registrar_metricas ?n (contar_estado ''consciente'' m) m4 = Inr m'"
    using assms c i d e by (auto simp: paso_def Let_def contar_estado_def split: sum.splits)
  from avanza_actualizar [OF c] avanza_interacciones [OF i] avanza_decaer [OF d]
    avanza_efecto_red [OF e] avanza_registrar [OF r]
  show ?thesis by (blast intro: avanza_trans0)
qed

lemma avanza_pasos:
  "pasos ts m g = Inr (m', g') \<Longrightarrow> avanza (length ts) m m'"
proof (induction ts arbitrary: m g)
  case Nil
  then show ?case by (simp add: avanza_refl)
next
  case (Cons t ts)
  obtain m1 g1 where p: "paso t m g = Inr (m1, g1)" and r: "pasos ts m1 g1 = Inr (m', g')"
    using Cons.prems by (auto split: sum.splits)
  from avanza_trans [OF avanza_paso [OF p] Cons.IH [OF r]]
  show ?case by simp
qed

lemma length_rango: "length [0..n - 1] = nat n"
  by simp

lemma avanza_ejecutar:
  assumes "ejecutar_simulacion m g = Inr (m', g')"
  shows "avanza (nat (tiempo_simulacion m)) m m'"
proof -
  obtain m1 g1 where s: "sembrar m g = Inr (m1, g1)"
    and p: "pasos [0..tiempo_simulacion m1 - 1] m1 g1 = Inr (m', g')"
    using assms by (auto simp: ejecutar_simulacion_def split: sum.splits)
  have a: "avanza 0 m m1" using s by (rule avanza_sembrar)
  then have t: "tiempo_simulacion m1 = tiempo_simulacion m" by (simp add: avanza_def)
  from avanza_pasos [OF p] have "avanza (nat (tiempo_simulacion m)) m1 m'"
    by (simp add: t)
  with a show ?thesis by (rule avanza_trans0)
qed

subsection \<open>A run whose draws are all 1\<close>

lemma oraculo_uno_avanza: "(\<lambda>n. oraculo_uno (Suc n)) = oraculo_uno"
  by (simp add: oraculo_uno_def)

lemma randbelow_uno: "randbelow n oraculo_uno = (0, oraculo_uno)"
  by (simp add: randbelow_def random_random_def oraculo_uno_avanza) (simp add: oraculo_uno_def)

lemma tomar_muestra_uno:
  "k \<le> length pool \<Longrightarrow> tomar_muestra k pool oraculo_uno = (take k pool, oraculo_uno)"
proof (induction k arbitrary: pool)
  case 0
  show ?case by simp
next
  case (Suc k)
  then obtain x xs where p: "pool = x # xs" by (cases pool) auto
  with Suc.prems have "k \<le> length xs" by simp
  from Suc.IH [OF this] show ?case
    by (simp add: p randbelow_uno quitar_def)
qed

lemma interaccion_uno:
  "probabilidad_interaccion (usuarios m ! i) \<le> 1 \<Longrightarrow>
   simular_interaccion_usuario i m oraculo_uno = (False, m, oraculo_uno)"
  by (simp add: simular_interaccion_usuario_def random_random_def oraculo_uno_avanza)
     (simp add: oraculo_uno_def)

lemma interacciones_uno:
  "\<forall>i \<in> set is. probabilidad_interaccion (usuarios m ! i) \<le> 1 \<Longrightarrow>
   interacciones is m oraculo_uno = Inr (m, oraculo_uno)"
  by (induction "is") (simp_all add: interaccion_uno)

lemma decaer_uno: "decaer is m oraculo_uno = (m, oraculo_uno)"
proof (induction "is")
  case Nil
  show ?case by simp
next
  case (Cons i resto)
  have "random_random oraculo_uno = (1, oraculo_uno)"
    by (simp add: random_random_def oraculo_uno_avanza) (simp add: oraculo_uno_def)
  then show ?case using Cons.IH by simp
qed

lemma contar_estado_tiempo:
  "contar_estado s (m\<lparr>tiempo_actual := t\<rparr>) = contar_estado s m"
  by (simp add: contar_estado_def)

lemma paso_uno:
  assumes "capacidad_maxima (chatbot m) \<noteq> 0"
    and "\<forall>u \<in> set (usuarios m). probabilidad_interaccion u \<le> 1"
    and "t \<le> 0"
  shows "paso t m oraculo_uno =
     (case registrar_metricas (contar_estado ''activo'' m) (contar_estado ''consciente'' m)
        (m\<lparr>tiempo_actual := t,
           chatbot := (chatbot m)
             \<lparr>capacidad_actual := min (contar_estado ''activo'' m) (capacidad_maxima (chatbot m)),
              tiempo_respuesta_actual := tiempo_respuesta_base (chatbot m) *
                (1 + (real_of_int (min (contar_estado ''activo'' m) (capacidad_maxima (chatbot m)))
                      / real_of_int (capacidad_maxima (chatbot m))) ^ 2)\<rparr>\<rparr>) of
        Inl e \<Rightarrow> Inl e
      | Inr m5 \<Rightarrow> Inr (m5, oraculo_uno))"
proof -
  let ?n = "contar_estado ''activo'' m"
  let ?c = "(chatbot m)
             \<lparr>capacidad_actual := min ?n (capacidad_maxima (chatbot m)),
              tiempo_respuesta_actual := tiempo_respuesta_base (chatbot m) *
                (1 + (real_of_int (min ?n (capacidad_maxima (chatbot m)))
                      / real_of_int (capacidad_maxima (chatbot m))) ^ 2)\<rparr>"
  let ?m1 = "m\<lparr>tiempo_actual := t, chatbot := ?c\<rparr>"
  have ac: "actualizar_capacidad (chatbot m) ?n = Inr ?c"
    using assms(1) by (simp add: actualizar_capacidad_def Let_def)
  have "\<forall>i \<in> set (con_estado ''consciente'' ?m1).
          probabilidad_interaccion (usuarios ?m1 ! i) \<le> 1"
    using assms(2) by (simp add: con_estado_def)
  then have i: "interacciones (con_estado ''consciente'' ?m1) ?m1 oraculo_uno = Inr (?m1, oraculo_uno)"
    by (rule interacciones_uno)
  have e: "efecto_red t ?n ?m1 oraculo_uno = (?m1, oraculo_uno)"
    using assms(3) by (simp add: efecto_red_def)
  show ?thesis
    by (simp add: paso_def Let_def contar_estado_tiempo ac i decaer_uno e)
qed

lemma sembrar_uno:
  assumes "\<forall>u \<in> set (usuarios m). probabilidad_interaccion u \<le> 1"
  shows "sembrar m oraculo_uno =
     Inr (fold (\<lambda>i. poner_estado i ''consciente'') [0..<min 10 (length (usuarios m))] m,
          oraculo_uno)"
proof -
  let ?n = "length (usuarios m)"
  let ?ini = "[0..<min 10 ?n]"
  let ?m1 = "fold (\<lambda>i. poner_estado i ''consciente'') ?ini m"
  have k: "nat (min 10 (int ?n)) = min 10 ?n" by simp
  have t: "tomar_muestra (min 10 ?n) [0..<?n] oraculo_uno = (take (min 10 ?n) [0..<?n], oraculo_uno)"
    by (rule tomar_muestra_uno) simp
  have tk: "take (min 10 ?n) [0..<?n] = ?ini"
    by (simp add: take_upt)
  have ok: "\<not> (min 10 (int ?n) < 0 \<or> int (length [0..<?n]) < min 10 (int ?n))"
    by simp
  have s: "random_sample [0..<?n] (min 10 (int ?n)) oraculo_uno = Inr (?ini, oraculo_uno)"
    unfolding random_sample_def if_not_P [OF ok] k t tk ..
  show ?thesis
  proof (cases "?n = 0")
    case True
    then show ?thesis unfolding sembrar_def s by simp
  next
    case False
    then have ne: "?ini \<noteq> []" by simp
    have c: "random_choice ?ini oraculo_uno = Inr (0, oraculo_uno)"
      using False by (simp add: random_choice_def randbelow_uno)
    have "avanza 0 m ?m1" by (rule avanza_fold_poner) simp
    then have l: "list_all2 sigue (usuarios m) (usuarios ?m1)" by (simp add: avanza_def)
    have "sigue (usuarios m ! 0) (usuarios ?m1 ! 0)"
      using list_all2_nthD [OF l, of 0] False by simp
    moreover have "probabilidad_interaccion (usuarios m ! 0) \<le> 1"
      using assms False by simp
    ultimately have "probabilidad_interaccion (usuarios ?m1 ! 0) \<le> 1"
      by (simp add: sigue_def)
    from interaccion_uno [OF this] have i:
      "simular_interaccion_usuario 0 ?m1 oraculo_uno = (False, ?m1, oraculo_uno)" .
    show ?thesis
      unfolding sembrar_def s sum.case prod.case Let_def if_P [OF ne] c i by simp
  qed
qed

lemma sembrar_usado:
  "sembrar modelo_usado oraculo_uno = Inr (modelo_sembrado, oraculo_uno)"
proof -
  have pr: "\<forall>u \<in> set (usuarios modelo_usado). probabilidad_interaccion u \<le> 1"
    by (simp add: modelo_usado_def usuario_ej_def)
  have f: "fold (\<lambda>i. poner_estado i ''consciente'')
             [0..<min 10 (length (usuarios modelo_usado))] modelo_usado = modelo_sembrado"
    by (simp add: modelo_usado_def modelo_sembrado_def poner_estado_def cambiar_usuario_def
        usuario_ej_def upt_conv_Cons)
  show ?thesis
    unfolding sembrar_uno [OF pr] f ..
qed

lemma paso_sembrado:
  "paso 0 modelo_sembrado oraculo_uno = Inr (modelo_usado_despues, oraculo_uno)"
proof -
  have cap: "capacidad_maxima (chatbot modelo_sembrado) \<noteq> 0"
    by (simp add: modelo_sembrado_def modelo_usado_def Chatbot_init_def)
  have pr: "\<forall>u \<in> set (usuarios modelo_sembrado). probabilidad_interaccion u \<le> 1"
    by (simp add: modelo_sembrado_def usuario_ej_def)
  have t: "(0::int) \<le> 0" by simp
  show ?thesis
    unfolding paso_uno [OF cap pr t]
    by (simp add: registrar_metricas_def calcular_percepcion_publica_def contar_estado_def
        modelo_sembrado_def modelo_usado_def modelo_usado_despues_def usuario_ej_def
        Chatbot_init_def)
qed

lemma ejecutar_usado:
  "ejecutar_simulacion modelo_usado oraculo_uno = Inr (modelo_usado_despues, oraculo_uno)"
proof -
  have r: "[0..tiempo_simulacion modelo_sembrado - 1] = [0]"
    by (simp add: modelo_sembrado_def modelo_usado_def upto.simps)
  show ?thesis
    unfolding ejecutar_simulacion_def sembrar_usado sum.case prod.case r
    by (simp add: paso_sembrado)
qed

subsection \<open>No way back to inactivo\<close>

lemma avanza_no_vuelve:
  "avanza k m m' \<Longrightarrow> list_all2 no_vuelve (usuarios m) (usuarios m')"
proof -
  assume "avanza k m m'"
  then have "list_all2 sigue (usuarios m) (usuarios m')" by (simp add: avanza_def)
  then show ?thesis
    by (rule list_all2_mono) (simp add: sigue_def no_vuelve_def)
qed

text \<open>
  Claim C9. No step of a run takes a user that is not \<^verbatim>\<open>'inactivo'\<close> back to
  \<^verbatim>\<open>'inactivo'\<close>: position by position, a user that has left that state is still
  outside it after the seeding, after one interaction, after one propagation, after the
  interactions, the decay and the network effect of a tick, after a whole tick, after any
  sequence of ticks and after the whole run. (Only \<^const>\<open>resetear_simulacion\<close>
  writes \<^verbatim>\<open>'inactivo'\<close>.)
\<close>

theorem estado_no_vuelve_a_inactivo:
  "(ejecutar_simulacion m g = Inr (m', g') \<longrightarrow> list_all2 no_vuelve (usuarios m) (usuarios m'))
   \<and> (pasos ts m g = Inr (m', g') \<longrightarrow> list_all2 no_vuelve (usuarios m) (usuarios m'))
   \<and> (paso t m g = Inr (m', g') \<longrightarrow> list_all2 no_vuelve (usuarios m) (usuarios m'))
   \<and> (sembrar m g = Inr (m', g') \<longrightarrow> list_all2 no_vuelve (usuarios m) (usuarios m'))
   \<and> (simular_interaccion_usuario i m g = (b, m', g') \<longrightarrow>
        list_all2 no_vuelve (usuarios m) (usuarios m'))
   \<and> (simular_propagacion_error i m g = Inr (m', g') \<longrightarrow>
        list_all2 no_vuelve (usuarios m) (usuarios m'))
   \<and> (interacciones is m g = Inr (m', g') \<longrightarrow> list_all2 no_vuelve (usuarios m) (usuarios m'))
   \<and> (decaer is m g = (m', g') \<longrightarrow> list_all2 no_vuelve (usuarios m) (usuarios m'))
   \<and> (efecto_red t n m g = (m', g') \<longrightarrow> list_all2 no_vuelve (usuarios m) (usuarios m'))"
  using avanza_ejecutar [of m g m' g'] avanza_pasos [of ts m g m' g'] avanza_paso [of t m g m' g']
    avanza_sembrar [of m g m' g'] avanza_interaccion [of i m g b m' g']
    avanza_propagacion [of i m g m' g'] avanza_interacciones [of "is" m g m' g']
    avanza_decaer [of "is" m g m' g'] avanza_efecto_red [of t n m g m' g']
    avanza_no_vuelve [of _ m m']
  by (intro conjI impI) blast+

theorem estado_no_vuelve_a_inactivo_witness:
  "ejecutar_simulacion modelo_usado oraculo_uno = Inr (modelo_usado_despues, oraculo_uno)
   \<and> map estado (usuarios modelo_usado) = [''activo'', ''consciente'']
   \<and> map estado (usuarios modelo_usado_despues) = [''consciente'', ''consciente'']
   \<and> list_all2 no_vuelve (usuarios modelo_usado) (usuarios modelo_usado_despues)"
proof -
  have a: "map estado (usuarios modelo_usado) = [''activo'', ''consciente'']"
    by (simp add: modelo_usado_def usuario_ej_def)
  have b: "map estado (usuarios modelo_usado_despues) = [''consciente'', ''consciente'']"
    by (simp add: modelo_usado_despues_def usuario_ej_def)
  note c = estado_no_vuelve_a_inactivo [THEN conjunct1, THEN mp, OF ejecutar_usado]
  show ?thesis
    by (intro conjI ejecutar_usado a b c)
qed

subsection \<open>The failure total\<close>

lemma chatbot_cambiar_usuario: "chatbot (cambiar_usuario i f m) = chatbot m"
  by (simp add: cambiar_usuario_def)

lemma chatbot_poner_estado: "chatbot (poner_estado i s m) = chatbot m"
  by (simp add: poner_estado_def chatbot_cambiar_usuario)

lemma chatbot_fold_marcar: "chatbot (fold (marcar_consciente origen) sel m) = chatbot m"
  by (induction sel arbitrary: m) (simp_all add: marcar_campos(3))

lemma chatbot_propagacion:
  "simular_propagacion_error i m g = Inr (m', g') \<Longrightarrow> chatbot m' = chatbot m"
  by (auto simp: simular_propagacion_error_def Let_def chatbot_fold_marcar
      split: prod.splits sum.splits)

lemma chatbot_decaer: "decaer is m g = (m', g') \<Longrightarrow> chatbot m' = chatbot m"
proof (induction "is" arbitrary: m g)
  case Nil
  then show ?case by simp
next
  case (Cons i resto)
  from Cons.prems have
    "decaer resto m g = (m', g')
     \<or> decaer resto m (\<lambda>n. g (Suc n)) = (m', g')
     \<or> decaer resto (poner_estado i ''consciente'' m) (\<lambda>n. g (Suc n)) = (m', g')"
    by (auto simp: random_random_def split: if_splits)
  then show ?case
    using Cons.IH chatbot_poner_estado by metis
qed

lemma chatbot_activar: "activar q is m g = (m', g') \<Longrightarrow> chatbot m' = chatbot m"
proof (induction "is" arbitrary: m g)
  case Nil
  then show ?case by simp
next
  case (Cons i resto)
  from Cons.prems have
    "activar q resto m (\<lambda>n. g (Suc n)) = (m', g')
     \<or> activar q resto (poner_estado i ''consciente'' m) (\<lambda>n. g (Suc n)) = (m', g')"
    by (auto simp: random_random_def split: if_splits)
  then show ?case
    using Cons.IH chatbot_poner_estado by metis
qed

lemma chatbot_efecto_red: "efecto_red t n m g = (m', g') \<Longrightarrow> chatbot m' = chatbot m"
  by (auto simp: efecto_red_def Let_def chatbot_activar split: if_splits)

lemma errores_interaccion:
  assumes "simular_interaccion_usuario i m g = (b, m', g')"
  shows "errores_totales (chatbot m') = errores_totales (chatbot m) + (if b then 1 else 0)"
    and "b = (g 0 < probabilidad_interaccion (usuarios m ! i)
              \<and> fst (generar_error (chatbot m) (\<lambda>n. g (Suc n))))"
  using assms
  by (auto simp: simular_interaccion_usuario_def random_random_def generar_error_def Let_def
      chatbot_cambiar_usuario split: if_splits)

lemma avanza_errores: "avanza k m m' \<Longrightarrow> errores_totales (chatbot m) \<le> errores_totales (chatbot m')"
  by (simp add: avanza_def)

text \<open>
  Claim C10. The failure total of the responder never decreases over a tick, over any
  sequence of ticks, or over a run. Within a tick only the interaction of a user changes
  it: an interaction adds exactly one when it returns a failure (the user interacted and
  \<^const>\<open>generar_error\<close> returned true) and nothing otherwise, while propagation,
  decay and the network effect leave the responder as it is. \<^const>\<open>generar_error\<close>
  itself returns the comparison of one draw with the failure probability and has no
  responder to return.
\<close>

theorem errores_totales_monotono:
  "(simular_interaccion_usuario i m g = (b, m', g') \<longrightarrow>
      errores_totales (chatbot m') = errores_totales (chatbot m) + (if b then 1 else 0)
      \<and> b = (g 0 < probabilidad_interaccion (usuarios m ! i)
               \<and> fst (generar_error (chatbot m) (\<lambda>n. g (Suc n)))))
   \<and> (paso t m g = Inr (m', g') \<longrightarrow>
        errores_totales (chatbot m) \<le> errores_totales (chatbot m'))
   \<and> (pasos ts m g = Inr (m', g') \<longrightarrow>
        errores_totales (chatbot m) \<le> errores_totales (chatbot m'))
   \<and> (ejecutar_simulacion m g = Inr (m', g') \<longrightarrow>
        errores_totales (chatbot m) \<le> errores_totales (chatbot m'))
   \<and> (simular_propagacion_error i m g = Inr (m', g') \<longrightarrow> chatbot m' = chatbot m)
   \<and> (decaer is m g = (m', g') \<longrightarrow> chatbot m' = chatbot m)
   \<and> (efecto_red t n m g = (m', g') \<longrightarrow> chatbot m' = chatbot m)
   \<and> generar_error c g = (g 0 < probabilidad_error c, \<lambda>n. g (Suc n))"
  using errores_interaccion [of i m g b m' g']
    avanza_errores [OF avanza_paso, of t m g m' g']
    avanza_errores [OF avanza_pasos, of ts m g m' g']
    avanza_errores [OF avanza_ejecutar, of m g m' g']
    chatbot_propagacion [of i m g m' g'] chatbot_decaer [of "is" m g m' g']
    chatbot_efecto_red [of t n m g m' g']
  by (simp add: generar_error_def random_random_def)

lemma interaccion_ej_cero:
  "simular_interaccion_usuario 0 modelo_ej oraculo_cero =
     (True,
      modelo_ej\<lparr>chatbot := (chatbot modelo_ej)\<lparr>errores_totales := 1\<rparr>,
                usuarios := [(usuario_ej 0 ''consciente'')
                               \<lparr>interacciones_totales := 1, errores_reportados := 1\<rparr>,
                             usuario_ej 1 ''inactivo'', usuario_ej 2 ''inactivo'']\<rparr>,
      oraculo_cero)"
  by (simp add: simular_interaccion_usuario_def random_random_def generar_error_def
      cambiar_usuario_def modelo_ej_def usuario_ej_def Chatbot_init_def oraculo_cero_def Let_def)

theorem errores_totales_monotono_witness:
  "simular_interaccion_usuario 0 modelo_ej oraculo_cero =
     (True,
      modelo_ej\<lparr>chatbot := (chatbot modelo_ej)\<lparr>errores_totales := 1\<rparr>,
                usuarios := [(usuario_ej 0 ''consciente'')
                               \<lparr>interacciones_totales := 1, errores_reportados := 1\<rparr>,
                             usuario_ej 1 ''inactivo'', usuario_ej 2 ''inactivo'']\<rparr>,
      oraculo_cero)
   \<and> errores_totales (chatbot modelo_ej) = 0
   \<and> errores_totales (chatbot
        (modelo_ej\<lparr>chatbot := (chatbot modelo_ej)\<lparr>errores_totales := 1\<rparr>,
                usuarios := [(usuario_ej 0 ''consciente'')
                               \<lparr>interacciones_totales := 1, errores_reportados := 1\<rparr>,
                             usuario_ej 1 ''inactivo'', usuario_ej 2 ''inactivo'']\<rparr>)) =
       errores_totales (chatbot modelo_ej) + (if True then 1 else 0)
   \<and> ejecutar_simulacion modelo_usado oraculo_uno = Inr (modelo_usado_despues, oraculo_uno)
   \<and> errores_totales (chatbot modelo_usado) \<le> errores_totales (chatbot modelo_usado_despues)"
proof -
  have z: "errores_totales (chatbot modelo_ej) = 0"
    by (simp add: modelo_ej_def Chatbot_init_def)
  note a = errores_totales_monotono [THEN conjunct1, THEN mp, OF interaccion_ej_cero,
      THEN conjunct1]
  note b = errores_totales_monotono [THEN conjunct2, THEN conjunct2, THEN conjunct2,
      THEN conjunct1, THEN mp, OF ejecutar_usado]
  show ?thesis
    by (intro conjI interaccion_ej_cero z a b ejecutar_usado)
qed

subsection \<open>Scenarios in sequence\<close>

lemma avanza_influencia:
  "avanza k m m' \<Longrightarrow> map influencia (usuarios m') = map influencia (usuarios m)"
proof -
  assume "avanza k m m'"
  then have l: "list_all2 sigue (usuarios m) (usuarios m')" by (simp add: avanza_def)
  show ?thesis
  proof (rule nth_equalityI)
    show "length (map influencia (usuarios m')) = length (map influencia (usuarios m))"
      using list_all2_lengthD [OF l] by simp
  next
    fix i assume "i < length (map influencia (usuarios m'))"
    then have i: "i < length (usuarios m)" using list_all2_lengthD [OF l] by simp
    from list_all2_nthD [OF l i] have "influencia (usuarios m' ! i) = influencia (usuarios m ! i)"
      by (simp add: sigue_def)
    then show "map influencia (usuarios m') ! i = map influencia (usuarios m) ! i"
      using i list_all2_lengthD [OF l] by simp
  qed
qed

lemma influencia_resetear:
  "map influencia (usuarios (resetear_simulacion m)) = map influencia (usuarios m)"
  by (simp add: resetear_simulacion_def resetear_usuario_def comp_def)

lemma influencia_configurar:
  "map influencia (usuarios (configurar_escenario c m)) =
     map (\<lambda>u. influencia u * influencia_mult c) (usuarios m)"
  by (simp add: configurar_escenario_def comp_def)

lemma analizar_lista_influencia:
  "analizar_lista escs res m g = Inr (res', m', g') \<Longrightarrow>
   map influencia (usuarios m') =
     map (\<lambda>x. x * prod_list (map (\<lambda>e. influencia_mult (snd e)) escs)) (map influencia (usuarios m))"
proof (induction escs arbitrary: res m g)
  case Nil
  then show ?case by simp
next
  case (Cons e escs)
  obtain nombre config where e: "e = (nombre, config)" by (cases e)
  obtain m1 g1 where ej: "ejecutar_simulacion (configurar_escenario config m) g = Inr (m1, g1)"
    using Cons.prems e by (auto split: sum.splits)
  obtain r where gr: "guardar_resultados (metricas m1) = Inr r"
    using Cons.prems e ej by (auto split: sum.splits)
  have rest: "analizar_lista escs (res(nombre \<mapsto> r)) (resetear_simulacion m1) g1 = Inr (res', m', g')"
    using Cons.prems e ej gr by simp
  have "map influencia (usuarios (resetear_simulacion m1)) =
          map (\<lambda>x. x * influencia_mult config) (map influencia (usuarios m))"
    using avanza_influencia [OF avanza_ejecutar [OF ej]]
    by (simp add: influencia_resetear influencia_configurar comp_def)
  with Cons.IH [OF rest] show ?case
    by (simp add: e comp_def mult.assoc)
qed

lemma registrar_ok:
  "capacidad_maxima (chatbot m) \<noteq> 0 \<Longrightarrow> \<exists>m'. registrar_metricas a b m = Inr m'"
  by (simp add: registrar_metricas_def calcular_percepcion_publica_def Let_def)

lemma avanza_estable:
  assumes "avanza k m m'" and "estable m"
  shows "estable m'"
proof -
  have l: "list_all2 sigue (usuarios m) (usuarios m')" using assms(1) by (simp add: avanza_def)
  have "list_all (\<lambda>u. probabilidad_interaccion u \<le> 1) (usuarios m')"
    unfolding list_all_length
  proof (intro allI impI)
    fix i assume i: "i < length (usuarios m')"
    then have i': "i < length (usuarios m)" using list_all2_lengthD [OF l] by simp
    from list_all2_nthD [OF l i']
    have "probabilidad_interaccion (usuarios m' ! i) = probabilidad_interaccion (usuarios m ! i)"
      by (simp add: sigue_def)
    moreover have "probabilidad_interaccion (usuarios m ! i) \<le> 1"
      using assms(2) i' by (simp add: estable_def list_all_length)
    ultimately show "probabilidad_interaccion (usuarios m' ! i) \<le> 1" by simp
  qed
  then show ?thesis
    using assms by (simp add: estable_def avanza_def)
qed

lemma estable_configurar: "estable m \<Longrightarrow> estable (configurar_escenario c m)"
  by (simp add: estable_def configurar_escenario_def list_all_iff)

lemma estable_resetear: "estable m \<Longrightarrow> estable (resetear_simulacion m)"
  by (simp add: estable_def resetear_simulacion_def resetear_usuario_def list_all_iff)

lemma ejecutar_estable:
  assumes "estable m"
  shows "\<exists>m'. ejecutar_simulacion m oraculo_uno = Inr (m', oraculo_uno)"
proof -
  have pr: "\<forall>u \<in> set (usuarios m). probabilidad_interaccion u \<le> 1"
    using assms by (simp add: estable_def list_all_iff)
  let ?m1 = "fold (\<lambda>i. poner_estado i ''consciente'') [0..<min 10 (length (usuarios m))] m"
  note s = sembrar_uno [OF pr]
  have e1: "estable ?m1" using avanza_estable [OF avanza_sembrar [OF s] assms] .
  then have cap: "capacidad_maxima (chatbot ?m1) \<noteq> 0"
    and pr1: "\<forall>u \<in> set (usuarios ?m1). probabilidad_interaccion u \<le> 1"
    and t1: "tiempo_simulacion ?m1 = 1"
    by (simp_all add: estable_def list_all_iff)
  have r: "[0..tiempo_simulacion ?m1 - 1] = [0]"
    unfolding t1 by (simp add: upto.simps)
  have z: "(0::int) \<le> 0" by simp
  note p = paso_uno [OF cap pr1 z]
  let ?m2 = "?m1\<lparr>tiempo_actual := 0,
           chatbot := (chatbot ?m1)
             \<lparr>capacidad_actual := min (contar_estado ''activo'' ?m1) (capacidad_maxima (chatbot ?m1)),
              tiempo_respuesta_actual := tiempo_respuesta_base (chatbot ?m1) *
                (1 + (real_of_int (min (contar_estado ''activo'' ?m1) (capacidad_maxima (chatbot ?m1)))
                      / real_of_int (capacidad_maxima (chatbot ?m1))) ^ 2)\<rparr>\<rparr>"
  have "capacidad_maxima (chatbot ?m2) \<noteq> 0" using cap by simp
  from registrar_ok [OF this] obtain m5 where
    rg: "registrar_metricas (contar_estado ''activo'' ?m1) (contar_estado ''consciente'' ?m1) ?m2 = Inr m5"
    by blast
  have "paso 0 ?m1 oraculo_uno = Inr (m5, oraculo_uno)"
    unfolding p rg by simp
  then have "ejecutar_simulacion m oraculo_uno = Inr (m5, oraculo_uno)"
    unfolding ejecutar_simulacion_def s sum.case prod.case r by simp
  then show ?thesis by blast
qed

lemma guardar_ok:
  assumes "avanza (Suc k) m m'"
  shows "\<exists>r. guardar_resultados (metricas m') = Inr r"
proof -
  from assms have "usuarios_activos (metricas m') \<noteq> []" "carga_sistema (metricas m') \<noteq> []"
    "errores_generados (metricas m') \<noteq> []" "percepcion_publica (metricas m') \<noteq> []"
    by (auto simp: avanza_def extiende_def)
  then show ?thesis by (simp add: guardar_resultados_def)
qed

lemma analizar_lista_estable:
  "estable m \<Longrightarrow> \<exists>res' m'. analizar_lista escs res m oraculo_uno = Inr (res', m', oraculo_uno)"
proof (induction escs arbitrary: res m)
  case Nil
  show ?case by simp
next
  case (Cons e escs)
  obtain nombre config where e: "e = (nombre, config)" by (cases e)
  have ec: "estable (configurar_escenario config m)"
    using Cons.prems by (rule estable_configurar)
  from ejecutar_estable [OF ec] obtain m1 where
    ej: "ejecutar_simulacion (configurar_escenario config m) oraculo_uno = Inr (m1, oraculo_uno)"
    by blast
  note av = avanza_ejecutar [OF ej]
  have e1: "estable m1" using avanza_estable [OF av ec] .
  have "nat (tiempo_simulacion (configurar_escenario config m)) = Suc 0"
    using ec by (simp add: estable_def)
  with av have "avanza (Suc 0) (configurar_escenario config m) m1" by simp
  from guardar_ok [OF this] obtain r where gr: "guardar_resultados (metricas m1) = Inr r"
    by blast
  from Cons.IH [OF estable_resetear [OF e1], of "res(nombre \<mapsto> r)"]
  obtain res' m' where rest:
    "analizar_lista escs (res(nombre \<mapsto> r)) (resetear_simulacion m1) oraculo_uno =
       Inr (res', m', oraculo_uno)"
    by blast
  have "analizar_lista (e # escs) res m oraculo_uno = Inr (res', m', oraculo_uno)"
    unfolding e analizar_lista.simps ej gr sum.case prod.case rest ..
  then show ?case by blast
qed

lemma estable_usado: "estable modelo_usado"
  by (simp add: estable_def modelo_usado_def usuario_ej_def Chatbot_init_def)

text \<open>
  Claim C7. The scenarios run in sequence: each multiplies every user's influence by its
  multiplier on top of the value the earlier scenarios left, the run does not change the
  influence and the reset does not restore it. So after the scenarios of a list the
  influence of every user is its value before the first scenario times the product of the
  multipliers of the list; for the four scenarios of \<^const>\<open>analizar_escenarios\<close> the
  product is \<open>0.5 * 1.0 * 2.0 * 5.0\<close>.
\<close>

theorem influencia_acumulada:
  "(analizar_lista escs res m g = Inr (res', m', g') \<longrightarrow>
      map influencia (usuarios m') =
        map (\<lambda>u. influencia u * prod_list (map (\<lambda>e. influencia_mult (snd e)) escs)) (usuarios m))
   \<and> (analizar_escenarios m g = Inr (res', m', g') \<longrightarrow>
        map influencia (usuarios m') =
          map (\<lambda>u. influencia u * (0.5 * 1.0 * 2.0 * 5.0)) (usuarios m))
   \<and> (ejecutar_simulacion m g = Inr (m', g') \<longrightarrow>
        map influencia (usuarios m') = map influencia (usuarios m))
   \<and> map influencia (usuarios (resetear_simulacion m)) = map influencia (usuarios m)
   \<and> map influencia (usuarios (configurar_escenario c m)) =
        map (\<lambda>u. influencia u * influencia_mult c) (usuarios m)"
proof (intro conjI impI)
  assume "analizar_lista escs res m g = Inr (res', m', g')"
  from analizar_lista_influencia [OF this]
  show "map influencia (usuarios m') =
        map (\<lambda>u. influencia u * prod_list (map (\<lambda>e. influencia_mult (snd e)) escs)) (usuarios m)"
    by (simp add: comp_def)
next
  assume "analizar_escenarios m g = Inr (res', m', g')"
  then have "analizar_lista escenarios Map.empty m g = Inr (res', m', g')"
    by (simp add: analizar_escenarios_def)
  from analizar_lista_influencia [OF this]
  show "map influencia (usuarios m') =
          map (\<lambda>u. influencia u * (0.5 * 1.0 * 2.0 * 5.0)) (usuarios m)"
    by (simp add: comp_def escenarios_def)
next
  assume "ejecutar_simulacion m g = Inr (m', g')"
  then show "map influencia (usuarios m') = map influencia (usuarios m)"
    by (rule avanza_influencia [OF avanza_ejecutar])
next
  show "map influencia (usuarios (resetear_simulacion m)) = map influencia (usuarios m)"
    by (rule influencia_resetear)
next
  show "map influencia (usuarios (configurar_escenario c m)) =
        map (\<lambda>u. influencia u * influencia_mult c) (usuarios m)"
    by (rule influencia_configurar)
qed

theorem influencia_acumulada_witness:
  "\<exists>res' m'. analizar_escenarios modelo_usado oraculo_uno = Inr (res', m', oraculo_uno)
      \<and> map influencia (usuarios modelo_usado) = [3.5, 3.5]
      \<and> map influencia (usuarios m') = [17.5, 17.5]"
proof -
  from analizar_lista_estable [OF estable_usado, of escenarios Map.empty]
  obtain res' m' where
    a: "analizar_escenarios modelo_usado oraculo_uno = Inr (res', m', oraculo_uno)"
    unfolding analizar_escenarios_def by blast
  have i: "map influencia (usuarios modelo_usado) = [3.5, 3.5]"
    by (simp add: modelo_usado_def usuario_ej_def)
  from influencia_acumulada [THEN conjunct2, THEN conjunct1, THEN mp, OF a]
  have j: "map influencia (usuarios m') = [17.5, 17.5]"
    by (simp add: modelo_usado_def usuario_ej_def)
  show ?thesis
    by (rule exI [of _ res'], rule exI [of _ m']) (intro conjI a i j)
qed

subsection \<open>A run starts from the state it is given\<close>

lemma analizar_lista_primero:
  assumes "analizar_lista ((nombre, config) # resto) res m g = Inr (res', m'', g'')"
  shows "\<exists>m1 g1 r.
      ejecutar_simulacion (configurar_escenario config m) g = Inr (m1, g1)
      \<and> guardar_resultados (metricas m1) = Inr r
      \<and> analizar_lista resto (res(nombre \<mapsto> r)) (resetear_simulacion m1) g1 = Inr (res', m'', g'')
      \<and> prefix (usuarios_activos (metricas m)) (usuarios_activos (metricas m1))
      \<and> prefix (carga_sistema (metricas m)) (carga_sistema (metricas m1))
      \<and> prefix (errores_generados (metricas m)) (errores_generados (metricas m1))
      \<and> prefix (percepcion_publica (metricas m)) (percepcion_publica (metricas m1))
      \<and> max_usuarios_activos r = Max (set (usuarios_activos (metricas m1)))
      \<and> max_carga r = Max (set (carga_sistema (metricas m1)))
      \<and> errores_finales r = last (errores_generados (metricas m1))
      \<and> percepcion_final r = last (percepcion_publica (metricas m1))"
proof -
  obtain m1 g1 where ej: "ejecutar_simulacion (configurar_escenario config m) g = Inr (m1, g1)"
    using assms by (auto split: sum.splits)
  obtain r where gr: "guardar_resultados (metricas m1) = Inr r"
    using assms ej by (auto split: sum.splits)
  have rest: "analizar_lista resto (res(nombre \<mapsto> r)) (resetear_simulacion m1) g1 = Inr (res', m'', g'')"
    using assms ej gr by simp
  have mc: "metricas (configurar_escenario config m) = metricas m"
    by (simp add: configurar_escenario_def)
  from avanza_ejecutar [OF ej] have
    "prefix (usuarios_activos (metricas m)) (usuarios_activos (metricas m1))"
    "prefix (carga_sistema (metricas m)) (carga_sistema (metricas m1))"
    "prefix (errores_generados (metricas m)) (errores_generados (metricas m1))"
    "prefix (percepcion_publica (metricas m)) (percepcion_publica (metricas m1))"
    by (simp_all add: avanza_def extiende_def mc)
  moreover from gr have
    "max_usuarios_activos r = Max (set (usuarios_activos (metricas m1)))"
    "max_carga r = Max (set (carga_sistema (metricas m1)))"
    "errores_finales r = last (errores_generados (metricas m1))"
    "percepcion_final r = last (percepcion_publica (metricas m1))"
    by (auto simp: guardar_resultados_def split: if_splits)
  ultimately show ?thesis using ej gr rest by blast
qed

lemma avanza_ejecutar_series:
  assumes "ejecutar_simulacion m g = Inr (m', g')"
  shows "extiende (nat (tiempo_simulacion m)) (usuarios_activos (metricas m)) (usuarios_activos (metricas m'))
      \<and> extiende (nat (tiempo_simulacion m)) (usuarios_conscientes (metricas m)) (usuarios_conscientes (metricas m'))
      \<and> extiende (nat (tiempo_simulacion m)) (carga_sistema (metricas m)) (carga_sistema (metricas m'))
      \<and> extiende (nat (tiempo_simulacion m)) (errores_generados (metricas m)) (errores_generados (metricas m'))
      \<and> extiende (nat (tiempo_simulacion m)) (tiempo_respuesta (metricas m)) (tiempo_respuesta (metricas m'))
      \<and> extiende (nat (tiempo_simulacion m)) (percepcion_publica (metricas m)) (percepcion_publica (metricas m'))
      \<and> prefix (eventos_viralizacion m) (eventos_viralizacion m')
      \<and> errores_totales (chatbot m) \<le> errores_totales (chatbot m')
      \<and> list_all2 no_vuelve (usuarios m) (usuarios m')"
  using avanza_ejecutar [OF assms] avanza_no_vuelve [OF avanza_ejecutar [OF assms]]
  by (simp add: avanza_def)

text \<open>
  Claim C2. \<^const>\<open>ejecutar_simulacion\<close> clears nothing before it starts. After a run
  that returns, every metric series is the series before the run followed by one new entry
  per tick of the budget, the event log before the run is an initial part of the log after
  it, the failure total is at least the one before, and every user that was not
  \<^verbatim>\<open>'inactivo'\<close> before is not \<^verbatim>\<open>'inactivo'\<close> after. In the scenario
  runner the first scenario runs on the given model with only the failure probability
  and the influences changed (\<^const>\<open>configurar_escenario\<close> keeps metrics, event log,
  states and counters); its summary is taken over the series that begin with the ones
  present before; the reset is applied to the state after that run, before the rest of
  the list.
\<close>

theorem ejecutar_no_limpia:
  "(ejecutar_simulacion m g = Inr (m', g') \<longrightarrow>
      extiende (nat (tiempo_simulacion m)) (usuarios_activos (metricas m)) (usuarios_activos (metricas m'))
      \<and> extiende (nat (tiempo_simulacion m)) (usuarios_conscientes (metricas m)) (usuarios_conscientes (metricas m'))
      \<and> extiende (nat (tiempo_simulacion m)) (carga_sistema (metricas m)) (carga_sistema (metricas m'))
      \<and> extiende (nat (tiempo_simulacion m)) (errores_generados (metricas m)) (errores_generados (metricas m'))
      \<and> extiende (nat (tiempo_simulacion m)) (tiempo_respuesta (metricas m)) (tiempo_respuesta (metricas m'))
      \<and> extiende (nat (tiempo_simulacion m)) (percepcion_publica (metricas m)) (percepcion_publica (metricas m'))
      \<and> prefix (eventos_viralizacion m) (eventos_viralizacion m')
      \<and> errores_totales (chatbot m) \<le> errores_totales (chatbot m')
      \<and> list_all2 no_vuelve (usuarios m) (usuarios m'))
   \<and> (analizar_lista ((nombre, config) # resto) res m g = Inr (res', m'', g'') \<longrightarrow>
        (\<exists>m1 g1 r.
           ejecutar_simulacion (configurar_escenario config m) g = Inr (m1, g1)
           \<and> guardar_resultados (metricas m1) = Inr r
           \<and> analizar_lista resto (res(nombre \<mapsto> r)) (resetear_simulacion m1) g1 = Inr (res', m'', g'')
           \<and> prefix (usuarios_activos (metricas m)) (usuarios_activos (metricas m1))
           \<and> prefix (carga_sistema (metricas m)) (carga_sistema (metricas m1))
           \<and> prefix (errores_generados (metricas m)) (errores_generados (metricas m1))
           \<and> prefix (percepcion_publica (metricas m)) (percepcion_publica (metricas m1))
           \<and> max_usuarios_activos r = Max (set (usuarios_activos (metricas m1)))
           \<and> max_carga r = Max (set (carga_sistema (metricas m1)))
           \<and> errores_finales r = last (errores_generados (metricas m1))
           \<and> percepcion_final r = last (percepcion_publica (metricas m1))))
   \<and> metricas (configurar_escenario config m) = metricas m
   \<and> eventos_viralizacion (configurar_escenario config m) = eventos_viralizacion m
   \<and> map estado (usuarios (configurar_escenario config m)) = map estado (usuarios m)
   \<and> errores_totales (chatbot (configurar_escenario config m)) = errores_totales (chatbot m)"
proof (intro conjI impI)
  assume "analizar_lista ((nombre, config) # resto) res m g = Inr (res', m'', g'')"
  then show "\<exists>m1 g1 r.
           ejecutar_simulacion (configurar_escenario config m) g = Inr (m1, g1)
           \<and> guardar_resultados (metricas m1) = Inr r
           \<and> analizar_lista resto (res(nombre \<mapsto> r)) (resetear_simulacion m1) g1 = Inr (res', m'', g'')
           \<and> prefix (usuarios_activos (metricas m)) (usuarios_activos (metricas m1))
           \<and> prefix (carga_sistema (metricas m)) (carga_sistema (metricas m1))
           \<and> prefix (errores_generados (metricas m)) (errores_generados (metricas m1))
           \<and> prefix (percepcion_publica (metricas m)) (percepcion_publica (metricas m1))
           \<and> max_usuarios_activos r = Max (set (usuarios_activos (metricas m1)))
           \<and> max_carga r = Max (set (carga_sistema (metricas m1)))
           \<and> errores_finales r = last (errores_generados (metricas m1))
           \<and> percepcion_final r = last (percepcion_publica (metricas m1))"
    by (rule analizar_lista_primero)
qed (simp_all add: avanza_ejecutar_series configurar_escenario_def comp_def)

theorem ejecutar_no_limpia_witness:
  "ejecutar_simulacion modelo_usado oraculo_uno = Inr (modelo_usado_despues, oraculo_uno)
   \<and> usuarios_activos (metricas modelo_usado) = [7]
   \<and> usuarios_activos (metricas modelo_usado_despues) = [7, 0]
   \<and> errores_generados (metricas modelo_usado_despues) = [3, 3]
   \<and> extiende (nat (tiempo_simulacion modelo_usado))
         (usuarios_activos (metricas modelo_usado)) (usuarios_activos (metricas modelo_usado_despues))
   \<and> (\<exists>res' m'' r.
         analizar_lista [(''Baja viralizacion'', \<lparr>prob_error = 0.005, influencia_mult = 0.5\<rparr>)]
           Map.empty modelo_usado oraculo_uno = Inr (res', m'', oraculo_uno)
         \<and> res' ''Baja viralizacion'' = Some r
         \<and> 7 \<le> max_usuarios_activos r)"
proof -
  let ?e = "\<lparr>prob_error = 0.005, influencia_mult = 0.5\<rparr>"
  have a: "usuarios_activos (metricas modelo_usado) = [7]"
    by (simp add: modelo_usado_def)
  have b: "usuarios_activos (metricas modelo_usado_despues) = [7, 0]"
    by (simp add: modelo_usado_despues_def)
  have c: "errores_generados (metricas modelo_usado_despues) = [3, 3]"
    by (simp add: modelo_usado_despues_def)
  note d = ejecutar_no_limpia [THEN conjunct1, THEN mp, OF ejecutar_usado, THEN conjunct1]
  from analizar_lista_estable [OF estable_usado, of "[(''Baja viralizacion'', ?e)]" Map.empty]
  obtain res' m'' where al:
    "analizar_lista [(''Baja viralizacion'', ?e)] Map.empty modelo_usado oraculo_uno =
       Inr (res', m'', oraculo_uno)"
    by blast
  from ejecutar_no_limpia [THEN conjunct2, THEN conjunct1, THEN mp, OF al]
  obtain m1 g1 r where
    rest: "analizar_lista [] (Map.empty(''Baja viralizacion'' \<mapsto> r)) (resetear_simulacion m1) g1 =
             Inr (res', m'', oraculo_uno)"
    and pre: "prefix (usuarios_activos (metricas modelo_usado)) (usuarios_activos (metricas m1))"
    and mx: "max_usuarios_activos r = Max (set (usuarios_activos (metricas m1)))"
    by blast
  from rest have "res' = Map.empty(''Baja viralizacion'' \<mapsto> r)" by simp
  then have s: "res' ''Baja viralizacion'' = Some r" by simp
  from pre have "7 \<in> set (usuarios_activos (metricas m1))"
    unfolding a by (auto simp: prefix_def)
  then have "7 \<le> Max (set (usuarios_activos (metricas m1)))" by simp
  then have m: "7 \<le> max_usuarios_activos r" by (simp add: mx)
  have ex: "\<exists>res' m'' r.
         analizar_lista [(''Baja viralizacion'', ?e)]
           Map.empty modelo_usado oraculo_uno = Inr (res', m'', oraculo_uno)
         \<and> res' ''Baja viralizacion'' = Some r
         \<and> 7 \<le> max_usuarios_activos r"
    by (rule exI [of _ res'], rule exI [of _ m''], rule exI [of _ r]) (intro conjI al s m)
  show ?thesis
    by (intro conjI ejecutar_usado a b c d ex)
qed

subsection \<open>Construction\<close>

lemma crear_usuario_campos:
  "id_usuario (fst (crear_usuario i g)) = i"
  "estado (fst (crear_usuario i g)) = ''inactivo''"
  "interacciones_totales (fst (crear_usuario i g)) = 0"
  "errores_reportados (fst (crear_usuario i g)) = 0"
  "tiempo_ultima_interaccion (fst (crear_usuario i g)) = 0"
  by (simp_all add: crear_usuario_def Usuario_init_def random_random_def random_uniform_def)

lemma crear_usuarios_rango_campos:
  "map id_usuario (fst (crear_usuarios_rango is g)) = is
   \<and> map estado (fst (crear_usuarios_rango is g)) = replicate (length is) ''inactivo''
   \<and> map interacciones_totales (fst (crear_usuarios_rango is g)) = replicate (length is) 0
   \<and> map errores_reportados (fst (crear_usuarios_rango is g)) = replicate (length is) 0"
proof (induction "is" arbitrary: g)
  case Nil
  show ?case by simp
next
  case (Cons i resto)
  obtain u g1 where c: "crear_usuario i g = (u, g1)" by (cases "crear_usuario i g")
  obtain us g2 where r: "crear_usuarios_rango resto g1 = (us, g2)"
    by (cases "crear_usuarios_rango resto g1")
  from crear_usuario_campos [of i g] c have
    "id_usuario u = i" "estado u = ''inactivo''" "interacciones_totales u = 0"
    "errores_reportados u = 0"
    by simp_all
  with Cons.IH [of g1] r show ?case by (simp add: c)
qed

text \<open>
  Claim C3, as the specification words it, at a concrete configuration: population size 0
  and capacity 0 are both invalid, and the construction returns a model.
\<close>

theorem construccion_sin_validar_counterexample:
  "\<not> falla_al_construir 0 0 1 oraculo_uno"
  by (simp add: falla_al_construir_def ModeloViralizacion_init_def split: prod.splits)

text \<open>
  Claim C3, amended. The construction validates nothing and never fails: for every
  population size, capacity and tick budget it returns a model with that size recorded,
  that capacity (also when it is zero or negative), base response time 1, failure
  probability 0.01 (the constructor takes no probability), one \<^verbatim>\<open>'inactivo'\<close> user
  with zero counters for each id of \<^verbatim>\<open>range(n)\<close> (none when \<open>n \<le> 0\<close>), empty
  metrics and an empty event log.
\<close>

theorem ModeloViralizacion_init_sin_validacion:
  "\<exists>us g'.
      ModeloViralizacion_init n cap t g =
        Inr (\<lparr>num_usuarios = n, tiempo_simulacion = t, tiempo_actual = 0,
              chatbot = Chatbot_init cap 1.0 0.01, usuarios = us,
              metricas = metricas_vacias, eventos_viralizacion = []\<rparr>, g')
      \<and> capacidad_maxima (Chatbot_init cap 1.0 0.01) = cap
      \<and> length us = nat n
      \<and> map id_usuario us = [0..n - 1]
      \<and> map estado us = replicate (nat n) ''inactivo''
      \<and> map interacciones_totales us = replicate (nat n) 0
      \<and> map errores_reportados us = replicate (nat n) 0"
proof -
  obtain us g1 where c: "crear_usuarios n g = (us, g1)" by (cases "crear_usuarios n g")
  from crear_usuarios_rango_campos [of "[0..n - 1]" g] c
  have f: "map id_usuario us = [0..n - 1]"
    "map estado us = replicate (nat n) ''inactivo''"
    "map interacciones_totales us = replicate (nat n) 0"
    "map errores_reportados us = replicate (nat n) 0"
    by (simp_all add: crear_usuarios_def)
  from f(1) have l: "length us = nat n"
    by (metis length_map length_rango)
  have i: "ModeloViralizacion_init n cap t g =
        Inr (\<lparr>num_usuarios = n, tiempo_simulacion = t, tiempo_actual = 0,
              chatbot = Chatbot_init cap 1.0 0.01, usuarios = us,
              metricas = metricas_vacias, eventos_viralizacion = []\<rparr>, g1)"
    by (simp add: ModeloViralizacion_init_def c)
  have k: "capacidad_maxima (Chatbot_init cap 1.0 0.01) = cap"
    by (simp add: Chatbot_init_def)
  show ?thesis
    by (rule exI [of _ us], rule exI [of _ g1]) (intro conjI i k l f)
qed

theorem ModeloViralizacion_init_sin_validacion_witness:
  "\<exists>g'. ModeloViralizacion_init 0 0 1 oraculo_uno =
        Inr (\<lparr>num_usuarios = 0, tiempo_simulacion = 1, tiempo_actual = 0,
              chatbot = Chatbot_init 0 1.0 0.01, usuarios = [],
              metricas = metricas_vacias, eventos_viralizacion = []\<rparr>, g')"
proof -
  from ModeloViralizacion_init_sin_validacion [of 0 0 1 oraculo_uno]
  obtain us g' where
    i: "ModeloViralizacion_init 0 0 1 oraculo_uno =
        Inr (\<lparr>num_usuarios = 0, tiempo_simulacion = 1, tiempo_actual = 0,
              chatbot = Chatbot_init 0 1.0 0.01, usuarios = us,
              metricas = metricas_vacias, eventos_viralizacion = []\<rparr>, g')"
    and l: "length us = nat 0"
    by blast
  from l have "us = []" by simp
  with i show ?thesis by blast
qed

subsection \<open>The network effect\<close>

lemma usuarios_poner_estado:
  "usuarios (poner_estado i s m) = (usuarios m)[i := (usuarios m ! i)\<lparr>estado := s\<rparr>]"
  "poner_estado i s m = m\<lparr>usuarios := usuarios (poner_estado i s m)\<rparr>"
  by (simp_all add: poner_estado_def cambiar_usuario_def)

lemma activar_marco:
  "activar p is m g = (m', g') \<Longrightarrow>
     m' = m\<lparr>usuarios := usuarios m'\<rparr> \<and> length (usuarios m') = length (usuarios m)
     \<and> g' = (\<lambda>n. g (n + length is))"
proof (induction "is" arbitrary: m g)
  case Nil
  then show ?case by auto
next
  case (Cons i resto)
  let ?m1 = "if g 0 < p then poner_estado i ''consciente'' m else m"
  have r: "activar p resto ?m1 (\<lambda>n. g (Suc n)) = (m', g')"
    using Cons.prems by (simp add: random_random_def split: if_splits)
  have l: "length (usuarios ?m1) = length (usuarios m)"
    by (simp add: usuarios_poner_estado(1))
  have e: "?m1\<lparr>usuarios := usuarios m'\<rparr> = m\<lparr>usuarios := usuarios m'\<rparr>"
    by (simp add: poner_estado_def cambiar_usuario_def)
  from Cons.IH [OF r] show ?case
    using l e by simp
qed

lemma activar_nth:
  assumes "distinct is" and "\<forall>i \<in> set is. i < length (usuarios m)"
    and "activar p is m g = (m', g')"
  shows "(\<forall>k < length is.
            usuarios m' ! (is ! k) =
              (if g k < p then (usuarios m ! (is ! k))\<lparr>estado := ''consciente''\<rparr>
               else usuarios m ! (is ! k)))
         \<and> (\<forall>j. j \<notin> set is \<longrightarrow> usuarios m' ! j = usuarios m ! j)"
  using assms
proof (induction "is" arbitrary: m g)
  case Nil
  then show ?case by simp
next
  case (Cons i resto)
  let ?m1 = "if g 0 < p then poner_estado i ''consciente'' m else m"
  have r: "activar p resto ?m1 (\<lambda>n. g (Suc n)) = (m', g')"
    using Cons.prems(3) by (simp add: random_random_def split: if_splits)
  have i: "i < length (usuarios m)" and ni: "i \<notin> set resto" and d: "distinct resto"
    using Cons.prems(1,2) by simp_all
  have b: "\<forall>j \<in> set resto. j < length (usuarios ?m1)"
    using Cons.prems(2) by (simp add: usuarios_poner_estado(1))
  note ih = Cons.IH [OF d b r]
  have otro: "usuarios ?m1 ! j = usuarios m ! j" if "j \<noteq> i" for j
    using that by (simp add: usuarios_poner_estado(1))
  have este: "usuarios ?m1 ! i =
      (if g 0 < p then (usuarios m ! i)\<lparr>estado := ''consciente''\<rparr> else usuarios m ! i)"
    using i by (simp add: usuarios_poner_estado(1))
  have a: "usuarios m' ! ((i # resto) ! k) =
              (if g k < p then (usuarios m ! ((i # resto) ! k))\<lparr>estado := ''consciente''\<rparr>
               else usuarios m ! ((i # resto) ! k))"
    if k: "k < length (i # resto)" for k
  proof (cases k)
    case 0
    have "usuarios m' ! i = usuarios ?m1 ! i" using ih ni by blast
    then show ?thesis using este 0 by simp
  next
    case (Suc k')
    then have k': "k' < length resto" using k by simp
    then have "resto ! k' \<noteq> i" using ni by (metis nth_mem)
    from otro [OF this] ih k' show ?thesis by (simp add: Suc)
  qed
  have c: "usuarios m' ! j = usuarios m ! j" if "j \<notin> set (i # resto)" for j
  proof -
    from that have "j \<noteq> i" "j \<notin> set resto" by simp_all
    with ih otro show ?thesis by simp
  qed
  from a c show ?case by blast
qed

lemma efecto_red_fuera: "\<not> (0 < t \<and> t mod 5 = 0) \<Longrightarrow> efecto_red t n m g = (m, g)"
  by (auto simp: efecto_red_def)

lemma efecto_red_marco:
  "efecto_red t n m g = (m', g') \<Longrightarrow>
     m' = m\<lparr>usuarios := usuarios m'\<rparr> \<and> length (usuarios m') = length (usuarios m)"
  using activar_marco [of "min 0.1 (real_of_int n / 1000)" "con_estado ''inactivo'' m" m g m' g']
  by (auto simp: efecto_red_def Let_def split: if_splits)

lemma efecto_red_multiplo:
  assumes "efecto_red t n m g = (m', g')" and "0 < t \<and> t mod 5 = 0"
  shows "(\<forall>k < length (con_estado ''inactivo'' m).
            usuarios m' ! (con_estado ''inactivo'' m ! k) =
              (if g k < min 0.1 (real_of_int n / 1000)
               then (usuarios m ! (con_estado ''inactivo'' m ! k))\<lparr>estado := ''consciente''\<rparr>
               else usuarios m ! (con_estado ''inactivo'' m ! k)))
         \<and> (\<forall>j. j \<notin> set (con_estado ''inactivo'' m) \<longrightarrow> usuarios m' ! j = usuarios m ! j)"
proof (cases "con_estado ''inactivo'' m = []")
  case True
  then have "m' = m" using assms by (simp add: efecto_red_def)
  then show ?thesis using True by simp
next
  case False
  then have a: "activar (min 0.1 (real_of_int n / 1000)) (con_estado ''inactivo'' m) m g = (m', g')"
    using assms by (simp add: efecto_red_def Let_def)
  have b: "\<forall>i \<in> set (con_estado ''inactivo'' m). i < length (usuarios m)"
    by (simp add: con_estado_set)
  from activar_nth [OF con_estado_distinct b a] show ?thesis .
qed

lemma paso_partes:
  assumes "paso t m g = Inr (m', g')"
  shows "\<exists>c m2 g2 m3 g3 m4.
      actualizar_capacidad (chatbot m) (contar_estado ''activo'' m) = Inr c
      \<and> interacciones (con_estado ''consciente'' (m\<lparr>tiempo_actual := t, chatbot := c\<rparr>))
            (m\<lparr>tiempo_actual := t, chatbot := c\<rparr>) g = Inr (m2, g2)
      \<and> decaer [0..<length (usuarios m2)] m2 g2 = (m3, g3)
      \<and> efecto_red t (contar_estado ''activo'' m) m3 g3 = (m4, g')
      \<and> usuarios m' = usuarios m4"
proof -
  let ?n = "contar_estado ''activo'' m"
  obtain c where c: "actualizar_capacidad (chatbot m) ?n = Inr c"
    using assms by (auto simp: paso_def Let_def contar_estado_def split: sum.splits)
  let ?m1 = "m\<lparr>tiempo_actual := t, chatbot := c\<rparr>"
  obtain m2 g2 where i: "interacciones (con_estado ''consciente'' ?m1) ?m1 g = Inr (m2, g2)"
    using assms c by (auto simp: paso_def Let_def contar_estado_def split: sum.splits)
  obtain m3 g3 where d: "decaer [0..<length (usuarios m2)] m2 g2 = (m3, g3)"
    by (cases "decaer [0..<length (usuarios m2)] m2 g2")
  obtain m4 g4 where e: "efecto_red t ?n m3 g3 = (m4, g4)"
    by (cases "efecto_red t ?n m3 g3")
  have r: "registrar_metricas ?n (contar_estado ''consciente'' m) m4 = Inr m' \<and> g4 = g'"
    using assms c i d e by (auto simp: paso_def Let_def contar_estado_def split: sum.splits)
  then have "usuarios m' = usuarios m4"
    by (auto simp: registrar_metricas_def split: if_splits sum.splits)
  with c i d e r show ?thesis by blast
qed

lemma efecto_red_ej:
  "efecto_red 5 200 modelo_ej oraculo_cero =
     (modelo_ej\<lparr>usuarios := [usuario_ej 0 ''consciente'', usuario_ej 1 ''consciente'',
                                usuario_ej 2 ''consciente'']\<rparr>, oraculo_cero)"
  "efecto_red 5 0 modelo_ej oraculo_cero = (modelo_ej, oraculo_cero)"
  by (simp_all add: efecto_red_def con_estado_def random_random_def poner_estado_def
      cambiar_usuario_def modelo_ej_def usuario_ej_def oraculo_cero_def upt_rec Let_def)

text \<open>
  Claim C8. The network effect acts on a tick \<open>t\<close> exactly when \<open>0 < t\<close> and
  \<open>t mod 5 = 0\<close>; on any other tick it changes nothing and draws nothing. On such a
  tick the users that are \<^verbatim>\<open>'inactivo'\<close> at that point draw once each, in list
  order: the \<open>k\<close>-th of them becomes \<^verbatim>\<open>'consciente'\<close> exactly when its draw is below
  \<open>min 0.1 (n / 1000)\<close>, and nothing else changes. In a tick, \<open>n\<close> is the number of
  \<^verbatim>\<open>'activo'\<close> users counted on the state the tick starts from, before its
  interactions and its decay.
\<close>

theorem efecto_red_cada_cinco:
  "(\<not> (0 < t \<and> t mod 5 = 0) \<longrightarrow> efecto_red t n m g = (m, g))
   \<and> (efecto_red t n m g = (m', g') \<longrightarrow>
        m' = m\<lparr>usuarios := usuarios m'\<rparr> \<and> length (usuarios m') = length (usuarios m)
        \<and> (0 < t \<and> t mod 5 = 0 \<longrightarrow>
             (\<forall>k < length (con_estado ''inactivo'' m).
                usuarios m' ! (con_estado ''inactivo'' m ! k) =
                  (if g k < min 0.1 (real_of_int n / 1000)
                   then (usuarios m ! (con_estado ''inactivo'' m ! k))\<lparr>estado := ''consciente''\<rparr>
                   else usuarios m ! (con_estado ''inactivo'' m ! k)))
             \<and> (\<forall>j. j \<notin> set (con_estado ''inactivo'' m) \<longrightarrow>
                    usuarios m' ! j = usuarios m ! j)))
   \<and> (paso t m g = Inr (m', g') \<longrightarrow>
        (\<exists>c m2 g2 m3 g3 m4.
           actualizar_capacidad (chatbot m) (contar_estado ''activo'' m) = Inr c
           \<and> interacciones (con_estado ''consciente'' (m\<lparr>tiempo_actual := t, chatbot := c\<rparr>))
                 (m\<lparr>tiempo_actual := t, chatbot := c\<rparr>) g = Inr (m2, g2)
           \<and> decaer [0..<length (usuarios m2)] m2 g2 = (m3, g3)
           \<and> efecto_red t (contar_estado ''activo'' m) m3 g3 = (m4, g')
           \<and> usuarios m' = usuarios m4))"
proof (intro conjI impI)
  assume "\<not> (0 < t \<and> t mod 5 = 0)"
  then show "efecto_red t n m g = (m, g)" by (rule efecto_red_fuera)
next
  assume "efecto_red t n m g = (m', g')"
  then show "m' = m\<lparr>usuarios := usuarios m'\<rparr>" by (simp add: efecto_red_marco)
next
  assume "efecto_red t n m g = (m', g')"
  then show "length (usuarios m') = length (usuarios m)" by (simp add: efecto_red_marco)
next
  assume a: "efecto_red t n m g = (m', g')" and b: "0 < t \<and> t mod 5 = 0"
  from efecto_red_multiplo [OF a b]
  show "\<forall>k < length (con_estado ''inactivo'' m).
                usuarios m' ! (con_estado ''inactivo'' m ! k) =
                  (if g k < min 0.1 (real_of_int n / 1000)
                   then (usuarios m ! (con_estado ''inactivo'' m ! k))\<lparr>estado := ''consciente''\<rparr>
                   else usuarios m ! (con_estado ''inactivo'' m ! k))"
    by (rule conjunct1)
next
  assume a: "efecto_red t n m g = (m', g')" and b: "0 < t \<and> t mod 5 = 0"
  from efecto_red_multiplo [OF a b]
  show "\<forall>j. j \<notin> set (con_estado ''inactivo'' m) \<longrightarrow> usuarios m' ! j = usuarios m ! j"
    by (rule conjunct2)
next
  assume "paso t m g = Inr (m', g')"
  then show "\<exists>c m2 g2 m3 g3 m4.
           actualizar_capacidad (chatbot m) (contar_estado ''activo'' m) = Inr c
           \<and> interacciones (con_estado ''consciente'' (m\<lparr>tiempo_actual := t, chatbot := c\<rparr>))
                 (m\<lparr>tiempo_actual := t, chatbot := c\<rparr>) g = Inr (m2, g2)
           \<and> decaer [0..<length (usuarios m2)] m2 g2 = (m3, g3)
           \<and> efecto_red t (contar_estado ''activo'' m) m3 g3 = (m4, g')
           \<and> usuarios m' = usuarios m4"
    by (rule paso_partes)
qed

theorem efecto_red_cada_cinco_witness:
  "efecto_red 4 200 modelo_ej oraculo_cero = (modelo_ej, oraculo_cero)
   \<and> efecto_red 0 200 modelo_ej oraculo_cero = (modelo_ej, oraculo_cero)
   \<and> efecto_red 5 200 modelo_ej oraculo_cero =
       (modelo_ej\<lparr>usuarios := [usuario_ej 0 ''consciente'', usuario_ej 1 ''consciente'',
                                  usuario_ej 2 ''consciente'']\<rparr>, oraculo_cero)
   \<and> efecto_red 5 0 modelo_ej oraculo_cero = (modelo_ej, oraculo_cero)
   \<and> length (usuarios (modelo_ej\<lparr>usuarios := [usuario_ej 0 ''consciente'',
         usuario_ej 1 ''consciente'', usuario_ej 2 ''consciente'']\<rparr>)) = length (usuarios modelo_ej)
   \<and> paso 0 modelo_sembrado oraculo_uno = Inr (modelo_usado_despues, oraculo_uno)"
proof -
  have n4: "\<not> (0 < (4::int) \<and> (4::int) mod 5 = 0)" by simp
  have n0: "\<not> (0 < (0::int) \<and> (0::int) mod 5 = 0)" by simp
  note a = efecto_red_cada_cinco [THEN conjunct1, THEN mp, OF n4]
  note b = efecto_red_cada_cinco [THEN conjunct1, THEN mp, OF n0]
  note c = efecto_red_cada_cinco [THEN conjunct2, THEN conjunct1, THEN mp, OF efecto_red_ej(1),
      THEN conjunct2, THEN conjunct1]
  show ?thesis
    by (intro conjI a b efecto_red_ej c paso_sembrado)
qed

end
